theory Spec2Isabelle
  imports Main "HOL-Library.AList"
begin

section \<open>Python values used by the analyzer\<close>

text \<open>
  A Python \<open>dict\<close> keeps its keys in insertion order and holds each key once. It is
  modelled as an association list: \<open>map_of d k\<close> is \<open>d.get(k)\<close>, \<open>AList.update k v d\<close>
  is \<open>d[k] = v\<close> (an existing key keeps its position, a new key goes to the end),
  \<open>length d\<close> is \<open>len(d)\<close> and iterating \<open>d.items()\<close> walks the list from the left.
  A \<open>bytes\<close> value is the list of its bytes. A \<open>str\<close> is the list of the bytes of its
  UTF-8 encoding, so \<open>encode\<close> of a \<open>str\<close> is the identity; \<open>decode\<close> of \<open>bytes\<close> is not,
  see \<open>decode_replace\<close> below.
\<close>

type_synonym ('k, 'v) pydict = "('k \<times> 'v) list"

definition startswith :: "string \<Rightarrow> string \<Rightarrow> bool" where
  "startswith s p = (take (length p) s = p)"

text \<open>Cutting a string at every character that satisfies \<open>sep\<close>: always at least one piece.\<close>

fun split_by :: "(char \<Rightarrow> bool) \<Rightarrow> string \<Rightarrow> string list" where
  "split_by sep [] = [] # []"
| "split_by sep (x # xs) =
     (if sep x then [] # split_by sep xs
      else (case split_by sep xs of
              [] \<Rightarrow> [x] # []
            | p # ps \<Rightarrow> (x # p) # ps))"

text \<open>\<open>s.split(c)\<close> for a one-character separator.\<close>

definition split_on :: "char \<Rightarrow> string \<Rightarrow> string list" where
  "split_on c s = split_by (\<lambda>x. x = c) s"

text \<open>A loop whose body may raise: the first \<open>None\<close> ends it.\<close>

fun fold_opt :: "('a \<Rightarrow> 'b \<Rightarrow> 'b option) \<Rightarrow> 'a list \<Rightarrow> 'b \<Rightarrow> 'b option" where
  "fold_opt f [] acc = Some acc"
| "fold_opt f (x # xs) acc =
     (case f x acc of
        None \<Rightarrow> None
      | Some acc' \<Rightarrow> fold_opt f xs acc')"

text \<open>ASCII letters only; enough to decide membership in the extension table below.\<close>

definition lower_char :: "char \<Rightarrow> char" where
  "lower_char c =
     (let n = (of_char c :: nat) in if 65 \<le> n \<and> n \<le> 90 then char_of (n + 32) else c)"

definition str_lower :: "string \<Rightarrow> string" where
  "str_lower s = map lower_char s"

text \<open>\<open>s.rfind(c)\<close>: the last index of \<open>c\<close>, or \<open>-1\<close>.\<close>

definition rfind :: "char \<Rightarrow> string \<Rightarrow> int" where
  "rfind c s =
     (case filter (\<lambda>i. s ! i = c) (rev [0..<length s]) of
        [] \<Rightarrow> -1
      | i # _ \<Rightarrow> int i)"

text \<open>\<open>content[a:b]\<close> for \<open>0 \<le> a\<close>, \<open>0 \<le> b\<close>: empty when \<open>b \<le> a\<close>, clamped at the end.\<close>

definition slice :: "'a list \<Rightarrow> nat \<Rightarrow> nat \<Rightarrow> 'a list" where
  "slice xs a b = take (b - a) (drop a xs)"

subsection \<open>\<open>os.path\<close> on POSIX\<close>

definition path_join :: "string \<Rightarrow> string \<Rightarrow> string" where
  "path_join a b =
     (if startswith b ''/'' then b
      else if a = [] \<or> last a = CHR ''/'' then a @ b
      else a @ ''/'' @ b)"

text \<open>
  \<open>os.path.splitext(p)[1]\<close>: the suffix from the last dot of the last path component,
  unless that component has only dots before it.
\<close>

definition splitext_ext :: "string \<Rightarrow> string" where
  "splitext_ext p =
     (let sepIndex = rfind CHR ''/'' p;
          dotIndex = rfind CHR ''.'' p
      in if dotIndex > sepIndex \<and>
            list_ex (\<lambda>ch. ch \<noteq> CHR ''.'')
              (slice p (nat (sepIndex + 1)) (nat dotIndex))
         then drop (nat dotIndex) p
         else [])"

definition path_basename :: "string \<Rightarrow> string" where
  "path_basename p = drop (nat (rfind CHR ''/'' p + 1)) p"

subsection \<open>The UTF-8 codec\<close>

text \<open>
  CPython's UTF-8 decoder reads its input as a sequence of segments, each either a
  well-formed UTF-8 sequence of one to four bytes or an error range of one to three
  bytes (an invalid start byte; a lead byte with the well-formed part of its
  continuation; a truncated sequence at the end). \<open>utf8_next s\<close> gives, for a non-empty
  \<open>s\<close>, whether the first segment is well formed and how many bytes it has.
\<close>

definition is_continuation :: "char \<Rightarrow> bool" where
  "is_continuation c = (let b = (of_char c :: nat) in 0x80 \<le> b \<and> b \<le> 0xBF)"

definition utf8_next :: "string \<Rightarrow> bool \<times> nat" where
  "utf8_next s =
     (case s of
        [] \<Rightarrow> (True, 0)
      | c # r \<Rightarrow>
          (let ch = (of_char c :: nat)
           in if ch < 0x80 then (True, 1)
              else if ch < 0xE0 then
                (if ch < 0xC2 then (False, 1)
                 else (case r of
                         [] \<Rightarrow> (False, 1)
                       | c2 # r2 \<Rightarrow> if \<not> is_continuation c2 then (False, 1) else (True, 2)))
              else if ch < 0xF0 then
                (case r of
                   [] \<Rightarrow> (False, 1)
                 | c2 # r2 \<Rightarrow>
                     if \<not> is_continuation c2 \<or>
                        (if (of_char c2 :: nat) < 0xA0 then ch = 0xE0 else ch = 0xED)
                     then (False, 1)
                     else (case r2 of
                             [] \<Rightarrow> (False, 2)
                           | c3 # r3 \<Rightarrow>
                               if \<not> is_continuation c3 then (False, 2) else (True, 3)))
              else if ch < 0xF5 then
                (case r of
                   [] \<Rightarrow> (False, 1)
                 | c2 # r2 \<Rightarrow>
                     if \<not> is_continuation c2 \<or>
                        (if (of_char c2 :: nat) < 0x90 then ch = 0xF0 else ch = 0xF4)
                     then (False, 1)
                     else (case r2 of
                             [] \<Rightarrow> (False, 2)
                           | c3 # r3 \<Rightarrow>
                               if \<not> is_continuation c3 then (False, 2)
                               else (case r3 of
                                       [] \<Rightarrow> (False, 3)
                                     | c4 # r4 \<Rightarrow>
                                         if \<not> is_continuation c4 then (False, 3)
                                         else (True, 4))))
              else (False, 1)))"

text \<open>
  \<open>utf8_map h k s\<close> copies the well-formed segments of \<open>s\<close> and puts \<open>h seg\<close> in the
  place of every error range \<open>seg\<close>; \<open>k\<close> counts the bytes of the current segment that
  are still to be skipped.
\<close>

fun utf8_map :: "(string \<Rightarrow> string) \<Rightarrow> nat \<Rightarrow> string \<Rightarrow> string" where
  "utf8_map h k [] = []"
| "utf8_map h (Suc k) (c # s) = utf8_map h k s"
| "utf8_map h 0 (c # s) =
     (let seg = take (snd (utf8_next (c # s))) (c # s)
      in (if fst (utf8_next (c # s)) then seg else h seg)
         @ utf8_map h (snd (utf8_next (c # s)) - 1) s)"

text \<open>
  \<open>b.decode("utf-8", errors="replace")\<close>, as the UTF-8 encoding of the resulting \<open>str\<close>:
  every error range becomes one U+FFFD.
\<close>

definition decode_replace :: "string \<Rightarrow> string" where
  "decode_replace b = utf8_map (\<lambda>seg. [CHR 0xEF, CHR 0xBF, CHR 0xBD]) 0 b"

text \<open>
  \<open>b.decode("utf-8", errors="surrogateescape").encode("utf-8", errors="replace")\<close>:
  every byte of an error range becomes a lone surrogate, which encodes as \<open>?\<close>.
\<close>

definition escape_replace :: "string \<Rightarrow> string" where
  "escape_replace b = utf8_map (\<lambda>seg. replicate (length seg) CHR ''?'') 0 b"

text \<open>
  What \<open>repo.git.<command>(...)\<close> makes of the standard output \<open>out\<close> of a git command
  and \<open>.encode("utf-8", errors="replace")\<close> makes of that: GitPython drops one final
  newline and decodes with \<open>surrogateescape\<close>.
\<close>

definition strip_newline :: "string \<Rightarrow> string" where
  "strip_newline out = (if out \<noteq> [] \<and> last out = CHR 0x0A then butlast out else out)"

definition stdout_bytes :: "string \<Rightarrow> string" where
  "stdout_bytes out = escape_replace (strip_newline out)"

subsection \<open>\<open>hashlib.md5\<close>\<close>

text \<open>
  MD5 as RFC 1321 defines it, on 32-bit values kept as integers below \<open>2 ^ 32\<close>:
  \<open>md5_hexdigest s\<close> is \<open>hashlib.md5(s.encode()).hexdigest()\<close>.
\<close>

unbundle bit_operations_syntax

definition md5_s :: "nat list" where
  "md5_s = [7, 12, 17, 22, 7, 12, 17, 22, 7, 12, 17, 22, 7, 12, 17, 22,
            5, 9, 14, 20, 5, 9, 14, 20, 5, 9, 14, 20, 5, 9, 14, 20,
            4, 11, 16, 23, 4, 11, 16, 23, 4, 11, 16, 23, 4, 11, 16, 23,
            6, 10, 15, 21, 6, 10, 15, 21, 6, 10, 15, 21, 6, 10, 15, 21]"

definition md5_K :: "int list" where
  "md5_K = [0xd76aa478, 0xe8c7b756, 0x242070db, 0xc1bdceee,
            0xf57c0faf, 0x4787c62a, 0xa8304613, 0xfd469501,
            0x698098d8, 0x8b44f7af, 0xffff5bb1, 0x895cd7be,
            0x6b901122, 0xfd987193, 0xa679438e, 0x49b40821,
            0xf61e2562, 0xc040b340, 0x265e5a51, 0xe9b6c7aa,
            0xd62f105d, 0x02441453, 0xd8a1e681, 0xe7d3fbc8,
            0x21e1cde6, 0xc33707d6, 0xf4d50d87, 0x455a14ed,
            0xa9e3e905, 0xfcefa3f8, 0x676f02d9, 0x8d2a4c8a,
            0xfffa3942, 0x8771f681, 0x6d9d6122, 0xfde5380c,
            0xa4beea44, 0x4bdecfa9, 0xf6bb4b60, 0xbebfbc70,
            0x289b7ec6, 0xeaa127fa, 0xd4ef3085, 0x04881d05,
            0xd9d4d039, 0xe6db99e5, 0x1fa27cf8, 0xc4ac5665,
            0xf4292244, 0x432aff97, 0xab9423a7, 0xfc93a039,
            0x655b59c3, 0x8f0ccc92, 0xffeff47d, 0x85845dd1,
            0x6fa87e4f, 0xfe2ce6e0, 0xa3014314, 0x4e0811a1,
            0xf7537e82, 0xbd3af235, 0x2ad7d2bb, 0xeb86d391]"

definition m32 :: "int \<Rightarrow> int" where
  "m32 x = x mod 4294967296"

definition not32 :: "int \<Rightarrow> int" where
  "not32 x = 4294967295 - x"

definition rotl32 :: "nat \<Rightarrow> int \<Rightarrow> int" where
  "rotl32 n x = m32 (x * 2 ^ n) + x div 2 ^ (32 - n)"

fun md5_round ::
  "int list \<Rightarrow> nat \<Rightarrow> (int \<times> int \<times> int \<times> int) \<Rightarrow> (int \<times> int \<times> int \<times> int)" where
  "md5_round M i (A, B, C, D) =
     (let (F, g) =
            (if i < 16 then ((B AND C) OR (not32 B AND D), i)
             else if i < 32 then ((D AND B) OR (not32 D AND C), (5 * i + 1) mod 16)
             else if i < 48 then (B XOR C XOR D, (3 * i + 5) mod 16)
             else (C XOR (B OR not32 D), (7 * i) mod 16));
          F' = m32 (F + A + md5_K ! i + M ! g)
      in (D, m32 (B + rotl32 (md5_s ! i) F'), B, C))"

definition le_word :: "int list \<Rightarrow> int" where
  "le_word bs = foldr (\<lambda>b acc. b + 256 * acc) bs 0"

definition chunk_words :: "int list \<Rightarrow> int list" where
  "chunk_words bs = map (\<lambda>j. le_word (take 4 (drop (4 * j) bs))) [0..<16]"

fun md5_chunk ::
  "(int \<times> int \<times> int \<times> int) \<Rightarrow> int list \<Rightarrow> (int \<times> int \<times> int \<times> int)" where
  "md5_chunk (a0, b0, c0, d0) bs =
     (let (A, B, C, D) = fold (md5_round (chunk_words bs)) [0..<64] (a0, b0, c0, d0)
      in (m32 (a0 + A), m32 (b0 + B), m32 (c0 + C), m32 (d0 + D)))"

definition le_bytes :: "nat \<Rightarrow> int \<Rightarrow> int list" where
  "le_bytes n x = map (\<lambda>j. (x div 256 ^ j) mod 256) [0..<n]"

definition md5_pad :: "int list \<Rightarrow> int list" where
  "md5_pad bs =
     bs @ [128] @ replicate ((55 + 64 - length bs mod 64) mod 64) 0
        @ le_bytes 8 ((8 * int (length bs)) mod 2 ^ 64)"

fun chunks :: "nat \<Rightarrow> int list \<Rightarrow> int list list" where
  "chunks 0 bs = []"
| "chunks (Suc k) bs = take 64 bs # chunks k (drop 64 bs)"

definition hex_digit :: "int \<Rightarrow> char" where
  "hex_digit n = ''0123456789abcdef'' ! nat n"

definition hex_byte :: "int \<Rightarrow> string" where
  "hex_byte b = [hex_digit (b div 16), hex_digit (b mod 16)]"

definition md5_digest :: "string \<Rightarrow> int list" where
  "md5_digest s =
     (let p = md5_pad (map of_char s);
          (a, b, c, d) = fold (\<lambda>ch st. md5_chunk st ch) (chunks (length p div 64) p)
                           (0x67452301, 0xefcdab89, 0x98badcfe, 0x10325476)
      in concat (map (le_bytes 4) [a, b, c, d]))"

definition md5_hexdigest :: "string \<Rightarrow> string" where
  "md5_hexdigest s = concat (map hex_byte (md5_digest s))"

section \<open>Data model\<close>

text \<open>The dictionary \<open>_parse_file\<close> builds for each code element.\<close>

record element =
  el_type :: string
  el_name :: string
  el_start_line :: nat
  el_end_line :: nat
  el_code :: string
  el_file_path :: string

text \<open>A tree-sitter node, as far as \<open>_parse_file\<close> reads it.\<close>

datatype node =
  Node (node_type: string) (start_byte: nat) (end_byte: nat)
       (start_row: nat) (end_row: nat) (children: "node list")

text \<open>
  The element database: \<open>{"elements": {id: record}, "metadata": {"last_processed_commit": c}}\<close>.
  A stored record is itself a dictionary from field name to string.
\<close>

type_synonym db_record = "(string, string) pydict"

record database =
  elements :: "(string, db_record) pydict"
  last_processed_commit :: "string option"

text \<open>
  What the analyzer reads from outside itself: the repository (GitPython), the working
  tree, the tree-sitter parser, and the library functions that are taken as given
  (\<open>os.path.relpath\<close>, whose result depends on the process; \<open>str.split()\<close> and \<open>int()\<close>).
  \<^item> \<open>languages\<close>: the keys of \<open>self.languages\<close>, the grammars that loaded;
  \<^item> \<open>relpath p start\<close>: \<open>os.path.relpath(p, start)\<close> in the process's working directory;
  \<^item> \<open>str_split s\<close>: \<open>s.split()\<close>, the runs of \<open>s\<close> between white space;
  \<^item> \<open>str_int s\<close>: \<open>int(s)\<close>, \<open>None\<close> when it raises \<open>ValueError\<close>;
  \<^item> \<open>ts_parse lang content\<close>: the root node of \<open>parser.parse(content)\<close>;
  \<^item> \<open>read_file p\<close>: the bytes of the working-tree file, \<open>None\<close> when reading raises;
  \<^item> \<open>git_show spec\<close>: the standard output of \<open>git show spec\<close>, the bytes of the blob,
    \<open>None\<close> when \<open>repo.git.show(spec)\<close> raises;
  \<^item> \<open>commit_resolves c\<close>: whether \<open>repo.commit(c)\<close> returns;
  \<^item> \<open>git_diff_name_status b a\<close>: the lines of \<open>git diff --name-status b a\<close>;
  \<^item> \<open>git_diff_unified b a p\<close>: the lines of \<open>git diff -U0 b a p\<close>, \<open>None\<close> when it raises;
  \<^item> \<open>push_commits\<close>: the pair \<open>_get_push_commits\<close> returns;
  \<^item> \<open>head_timestamp\<close>: the ISO date of the head commit.
  Paths are taken to be encodable (\<open>unique_str.encode()\<close> does not raise), as git's
  quoted path names are.
\<close>

record env =
  repo_path :: string
  languages :: "string list"
  relpath :: "string \<Rightarrow> string \<Rightarrow> string"
  str_split :: "string \<Rightarrow> string list"
  str_int :: "string \<Rightarrow> int option"
  ts_parse :: "string \<Rightarrow> string \<Rightarrow> node"
  read_file :: "string \<Rightarrow> string option"
  git_show :: "string \<Rightarrow> string option"
  commit_resolves :: "string \<Rightarrow> bool"
  git_diff_name_status :: "string \<Rightarrow> string \<Rightarrow> string list"
  git_diff_unified :: "string \<Rightarrow> string \<Rightarrow> string \<Rightarrow> string list option"
  push_commits :: "string \<times> string"
  head_timestamp :: string

section \<open>Language of a file\<close>

definition LANGUAGE_EXTENSIONS :: "(string, string) pydict" where
  "LANGUAGE_EXTENSIONS =
     [(''.py'', ''python''),
      (''.js'', ''javascript''),
      (''.jsx'', ''javascript''),
      (''.ts'', ''typescript''),
      (''.tsx'', ''tsx''),
      (''.java'', ''java''),
      (''.go'', ''go''),
      (''.rs'', ''rust'')]"

definition get_file_language :: "string \<Rightarrow> string option" where
  "get_file_language file_path =
     (let extension = str_lower (splitext_ext file_path)
      in map_of LANGUAGE_EXTENSIONS extension)"

text \<open>The test \<open>not lang_name or lang_name not in self.languages\<close> that skips a file.\<close>

definition language_missing :: "env \<Rightarrow> string option \<Rightarrow> bool" where
  "language_missing e lang_name =
     (case lang_name of
        None \<Rightarrow> True
      | Some l \<Rightarrow> l = [] \<or> l \<notin> set (languages e))"

section \<open>Affected files\<close>

record affected_files =
  af_modified :: "string list"
  af_added :: "string list"
  af_deleted :: "string list"

text \<open>The loop body of the first-commit branch: only status \<open>A\<close> counts.\<close>

definition first_commit_line :: "env \<Rightarrow> string \<Rightarrow> affected_files \<Rightarrow> affected_files" where
  "first_commit_line e line result =
     (let parts = split_on CHR 0x09 line
      in if length parts \<ge> 2 then
           (let status = parts ! 0; filename = parts ! 1
            in if status = ''A''
               then result\<lparr>af_added := af_added result @ [path_join (repo_path e) filename]\<rparr>
               else result)
         else result)"

text \<open>The loop body of the general branch.\<close>

definition diff_line :: "env \<Rightarrow> string \<Rightarrow> affected_files \<Rightarrow> affected_files" where
  "diff_line e line result =
     (let parts = split_on CHR 0x09 line
      in if length parts \<ge> 2 then
           (let status = parts ! 0; filename = parts ! 1;
                file_path = path_join (repo_path e) filename
            in if status = ''M'' then result\<lparr>af_modified := af_modified result @ [file_path]\<rparr>
               else if status = ''A'' then result\<lparr>af_added := af_added result @ [file_path]\<rparr>
               else if status = ''D'' then result\<lparr>af_deleted := af_deleted result @ [file_path]\<rparr>
               else if startswith status ''R'' then
                 (if length parts \<ge> 3 then
                    (let old_filename = parts ! 1; new_filename = parts ! 2;
                         old_path = path_join (repo_path e) old_filename;
                         new_path = path_join (repo_path e) new_filename
                     in result\<lparr>af_deleted := af_deleted result @ [old_path],
                                af_added := af_added result @ [new_path]\<rparr>)
                  else result)
               else result)
         else result)"

definition get_affected_files :: "env \<Rightarrow> string \<Rightarrow> string \<Rightarrow> affected_files" where
  "get_affected_files e before_commit after_commit =
     (let result = \<lparr>af_modified = [], af_added = [], af_deleted = []\<rparr>
      in if \<not> commit_resolves e before_commit
         then fold (first_commit_line e) (git_diff_name_status e before_commit after_commit) result
         else fold (diff_line e) (git_diff_name_status e before_commit after_commit) result)"

section \<open>Affected lines\<close>

text \<open>
  The body of the loop over the diff's lines in \<open>_get_affected_lines\<close>; \<open>None\<close> when
  the unpacking or \<open>int\<close> raises.
\<close>

definition hunk_line :: "env \<Rightarrow> string \<Rightarrow> int set \<Rightarrow> int set option" where
  "hunk_line e line affected_lines =
     (if startswith line ''@@'' then
        (let parts = str_split e line
         in if length parts \<ge> 2 then
              (let line_info = parts ! 1
               in if startswith line_info ''+'' then
                    (let line_info = drop 1 line_info
                     in if CHR '','' \<in> set line_info then
                          (case map (str_int e) (split_on CHR '','' line_info) of
                             [Some start_line, Some num_lines] \<Rightarrow>
                               Some (affected_lines \<union> {start_line..<start_line + num_lines})
                           | _ \<Rightarrow> None)
                        else
                          (case str_int e line_info of
                             Some start_line \<Rightarrow>
                               Some (affected_lines \<union> {start_line..<start_line + 1})
                           | None \<Rightarrow> None))
                  else Some affected_lines)
            else Some affected_lines)
      else Some affected_lines)"

definition get_affected_lines :: "env \<Rightarrow> string \<Rightarrow> string \<Rightarrow> string \<Rightarrow> int set" where
  "get_affected_lines e file_path before_commit after_commit =
     (let rel_path = relpath e file_path (repo_path e)
      in case git_diff_unified e before_commit after_commit rel_path of
           None \<Rightarrow> {1..<100000}
         | Some diff_output \<Rightarrow>
             (case fold_opt (hunk_line e) diff_output {} of
                None \<Rightarrow> {1..<100000}
              | Some affected_lines \<Rightarrow> affected_lines))"

section \<open>Parsing a file into code elements\<close>

text \<open>
  \<open>_get_file_content_at_commit\<close>: the \<open>str\<close> that \<open>repo.git.show\<close> returns, encoded
  again with \<open>errors="replace"\<close>; \<open>None\<close> when the command fails.
\<close>

definition get_file_content_at_commit :: "env \<Rightarrow> string \<Rightarrow> string \<Rightarrow> string option" where
  "get_file_content_at_commit e file_path commit =
     (let rel_path = relpath e file_path (repo_path e)
      in case git_show e (commit @ '':'' @ rel_path) of
           None \<Rightarrow> None
         | Some out \<Rightarrow> Some (stdout_bytes out))"

text \<open>The languages that have an entry in \<open>queries\<close>.\<close>

definition query_languages :: "string list" where
  "query_languages = [''python'', ''javascript'', ''typescript'', ''java'', ''go'', ''rust'']"

text \<open>
  \<open>_iter_tree\<close>: the nodes of the tree, parents before children. (A tree deeper than
  Python's recursion limit makes the source raise; such a run writes no report and is
  not modelled.)
\<close>

fun iter_tree :: "node \<Rightarrow> node list" where
  "iter_tree (Node t sb eb sr er cs) = Node t sb eb sr er cs # concat (map iter_tree cs)"

definition element_type_of :: "string \<Rightarrow> string option" where
  "element_type_of t =
     (if t = ''function_definition'' then Some ''function''
      else if t = ''class_definition'' then Some ''class''
      else if t = ''method_definition'' then Some ''method''
      else if t = ''function_declaration'' then Some ''function''
      else if t = ''class_declaration'' then Some ''class''
      else None)"

text \<open>
  The name: the decoded text of the first child that is an identifier, if there is one.
\<close>

definition element_name_of :: "string \<Rightarrow> node list \<Rightarrow> string option" where
  "element_name_of content cs =
     (case find (\<lambda>child. node_type child = ''identifier'' \<or>
                          node_type child = ''property_identifier'') cs of
        None \<Rightarrow> None
      | Some child \<Rightarrow>
          Some (decode_replace (slice content (start_byte child) (end_byte child))))"

definition node_element :: "env \<Rightarrow> string \<Rightarrow> string \<Rightarrow> node \<Rightarrow> element option" where
  "node_element e file_path content n =
     (case element_type_of (node_type n) of
        None \<Rightarrow> None
      | Some element_type \<Rightarrow>
          (case element_name_of content (children n) of
             None \<Rightarrow> None
           | Some element_name \<Rightarrow>
               if element_name = [] then None
               else Some \<lparr>el_type = element_type,
                          el_name = element_name,
                          el_start_line = start_row n + 1,
                          el_end_line = end_row n + 1,
                          el_code = decode_replace (slice content (start_byte n) (end_byte n)),
                          el_file_path = relpath e file_path (repo_path e)\<rparr>))"

definition parse_file :: "env \<Rightarrow> string \<Rightarrow> string option \<Rightarrow> element list" where
  "parse_file e file_path content =
     (case get_file_language file_path of
        None \<Rightarrow> []
      | Some lang_name \<Rightarrow>
          if lang_name = [] \<or> lang_name \<notin> set (languages e) then []
          else
            (case (case content of None \<Rightarrow> read_file e file_path | Some c \<Rightarrow> Some c) of
               None \<Rightarrow> []
             | Some content \<Rightarrow>
                 if lang_name \<notin> set query_languages then []
                 else List.map_filter (node_element e file_path content)
                        (iter_tree (ts_parse e lang_name content))))"

definition parse_file_at_commit :: "env \<Rightarrow> string \<Rightarrow> string \<Rightarrow> element list" where
  "parse_file_at_commit e file_path commit =
     (case get_file_content_at_commit e file_path commit of
        None \<Rightarrow> []
      | Some content \<Rightarrow> if content = [] then [] else parse_file e file_path (Some content))"

section \<open>Element identity\<close>

definition unique_str :: "env \<Rightarrow> element \<Rightarrow> string" where
  "unique_str e el =
     relpath e (el_file_path el) (repo_path e) @ '':'' @ el_name el @ '':'' @ el_type el"

definition generate_element_id :: "env \<Rightarrow> element \<Rightarrow> string" where
  "generate_element_id e el = md5_hexdigest (unique_str e el)"

text \<open>The dictionary comprehension \<open>{self._generate_element_id(e): e for e in elements}\<close>.\<close>

definition elements_map :: "env \<Rightarrow> element list \<Rightarrow> (string, element) pydict" where
  "elements_map e els = fold (\<lambda>el m. AList.update (generate_element_id e el) el m) els []"

section \<open>Classification\<close>

text \<open>The three lists of the run and the \<open>elements\<close> dictionary of the database.\<close>

record run_state =
  added_elements :: "element list"
  modified_elements :: "element list"
  deleted_elements :: "element list"
  db_elements :: "(string, db_record) pydict"

text \<open>\<open>if element_id in db: db[element_id]["deleted_at"] = after_commit\<close>.\<close>

definition mark_deleted ::
  "string \<Rightarrow> string \<Rightarrow> (string, db_record) pydict \<Rightarrow> (string, db_record) pydict" where
  "mark_deleted element_id after_commit db =
     (case map_of db element_id of
        None \<Rightarrow> db
      | Some r \<Rightarrow> AList.update element_id (AList.update ''deleted_at'' after_commit r) db)"

text \<open>Modified file, the body of the loop over \<open>after_elements_map.items()\<close>.\<close>

definition classify_after ::
  "string \<Rightarrow> (string, element) pydict \<Rightarrow> string \<times> element \<Rightarrow> run_state \<Rightarrow> run_state" where
  "classify_after after_commit before_elements_map item st =
     (let element_id = fst item; after_element = snd item;
          is_affected = True
      in case map_of before_elements_map element_id of
           Some before_element \<Rightarrow>
             if el_code before_element \<noteq> el_code after_element then
               st\<lparr>modified_elements := modified_elements st @ [after_element],
                  db_elements := AList.update element_id
                    [(''type'', el_type after_element),
                     (''name'', el_name after_element),
                     (''file_path'', el_file_path after_element),
                     (''code'', el_code after_element),
                     (''last_modified'', after_commit)] (db_elements st)\<rparr>
             else st
         | None \<Rightarrow>
             st\<lparr>added_elements := added_elements st @ [after_element],
                db_elements := AList.update element_id
                  [(''type'', el_type after_element),
                   (''name'', el_name after_element),
                   (''file_path'', el_file_path after_element),
                   (''code'', el_code after_element),
                   (''added_at'', after_commit)] (db_elements st)\<rparr>)"

text \<open>Modified file, the body of the loop over \<open>before_elements_map.items()\<close>.\<close>

definition classify_before ::
  "string \<Rightarrow> (string, element) pydict \<Rightarrow> string \<times> element \<Rightarrow> run_state \<Rightarrow> run_state" where
  "classify_before after_commit after_elements_map item st =
     (let element_id = fst item; before_element = snd item
      in if map_of after_elements_map element_id = None then
           st\<lparr>deleted_elements := deleted_elements st @ [before_element],
              db_elements := mark_deleted element_id after_commit (db_elements st)\<rparr>
         else st)"

definition process_modified_file ::
  "env \<Rightarrow> string \<Rightarrow> string \<Rightarrow> string \<Rightarrow> run_state \<Rightarrow> run_state" where
  "process_modified_file e before_commit after_commit file_path st =
     (if language_missing e (get_file_language file_path) then st
      else
        (let affected_lines = get_affected_lines e file_path before_commit after_commit;
             before_elements = parse_file_at_commit e file_path before_commit;
             before_elements_map = elements_map e before_elements;
             after_elements = parse_file e file_path None;
             after_elements_map = elements_map e after_elements;
             st1 = fold (classify_after after_commit before_elements_map) after_elements_map st
         in fold (classify_before after_commit after_elements_map) before_elements_map st1))"

text \<open>Added file, the body of the loop over its elements.\<close>

definition add_element :: "env \<Rightarrow> string \<Rightarrow> element \<Rightarrow> run_state \<Rightarrow> run_state" where
  "add_element e after_commit el st =
     (let element_id = generate_element_id e el
      in st\<lparr>added_elements := added_elements st @ [el],
            db_elements := AList.update element_id
              [(''type'', el_type el),
               (''name'', el_name el),
               (''file_path'', el_file_path el),
               (''code'', el_code el),
               (''added_at'', after_commit)] (db_elements st)\<rparr>)"

definition process_added_file :: "env \<Rightarrow> string \<Rightarrow> string \<Rightarrow> run_state \<Rightarrow> run_state" where
  "process_added_file e after_commit file_path st =
     (if language_missing e (get_file_language file_path) then st
      else fold (add_element e after_commit) (parse_file e file_path None) st)"

text \<open>Deleted file, the body of the loop over its elements.\<close>

definition delete_element :: "env \<Rightarrow> string \<Rightarrow> element \<Rightarrow> run_state \<Rightarrow> run_state" where
  "delete_element e after_commit el st =
     (let element_id = generate_element_id e el
      in st\<lparr>deleted_elements := deleted_elements st @ [el],
            db_elements := mark_deleted element_id after_commit (db_elements st)\<rparr>)"

definition process_deleted_file ::
  "env \<Rightarrow> string \<Rightarrow> string \<Rightarrow> string \<Rightarrow> run_state \<Rightarrow> run_state" where
  "process_deleted_file e before_commit after_commit file_path st =
     (if language_missing e (get_file_language file_path) then st
      else fold (delete_element e after_commit) (parse_file_at_commit e file_path before_commit) st)"

section \<open>The run\<close>

record report =
  rp_added :: "element list"
  rp_modified :: "element list"
  rp_deleted :: "element list"
  stats_added :: nat
  stats_modified :: nat
  stats_deleted :: nat
  stats_total_elements :: nat
  meta_repository :: string
  meta_before :: string
  meta_after :: string
  meta_timestamp :: string

text \<open>The state after the three loops over the affected files.\<close>

definition classify_files :: "env \<Rightarrow> (string, db_record) pydict \<Rightarrow> run_state" where
  "classify_files e db =
     (let before_commit = fst (push_commits e); after_commit = snd (push_commits e);
          affected = get_affected_files e before_commit after_commit;
          st0 = \<lparr>added_elements = [], modified_elements = [], deleted_elements = [],
                 db_elements = db\<rparr>;
          st1 = fold (process_modified_file e before_commit after_commit) (af_modified affected) st0;
          st2 = fold (process_added_file e after_commit) (af_added affected) st1
      in fold (process_deleted_file e before_commit after_commit) (af_deleted affected) st2)"

text \<open>
  \<open>analyze_repo_changes\<close>: the report it returns and the database it saves, from the
  database it loaded.
\<close>

definition analyze_repo_changes :: "env \<Rightarrow> database \<Rightarrow> report \<times> database" where
  "analyze_repo_changes e db =
     (let before_commit = fst (push_commits e); after_commit = snd (push_commits e);
          st = classify_files e (elements db);
          db' = \<lparr>elements = db_elements st, last_processed_commit = Some after_commit\<rparr>
      in (\<lparr>rp_added = added_elements st,
           rp_modified = modified_elements st,
           rp_deleted = deleted_elements st,
           stats_added = length (added_elements st),
           stats_modified = length (modified_elements st),
           stats_deleted = length (deleted_elements st),
           stats_total_elements = length (elements db'),
           meta_repository = path_basename (repo_path e),
           meta_before = before_commit,
           meta_after = after_commit,
           meta_timestamp = head_timestamp e\<rparr>, db'))"

section \<open>Example repositories\<close>

text \<open>
  A small world to run the analyzer in: the repository is at \<open>/repo\<close>, which is also
  the working directory, only the Python grammar is loaded, and the range is
  \<open>(c0, c1)\<close>. \<open>demo_relpath\<close> is \<open>os.path.relpath\<close> for a path below \<open>start\<close> and
  for a relative path when \<open>start\<close> is the working directory. \<open>demo_split\<close> and
  \<open>demo_int\<close> are \<open>str.split()\<close> and \<open>int()\<close> on ASCII strings. \<open>demo_parse\<close> gives
  the syntax trees of the few files the examples use.
\<close>

definition demo_relpath :: "string \<Rightarrow> string \<Rightarrow> string" where
  "demo_relpath p start =
     (if startswith p (start @ ''/'') then drop (length start + 1) p else p)"

text \<open>\<open>s.split()\<close> for an ASCII string: the runs between white space.\<close>

definition is_space :: "char \<Rightarrow> bool" where
  "is_space c = (let n = (of_char c :: nat) in (9 \<le> n \<and> n \<le> 13) \<or> (28 \<le> n \<and> n \<le> 32))"

definition demo_split :: "string \<Rightarrow> string list" where
  "demo_split s = filter (\<lambda>t. t \<noteq> []) (split_by is_space s)"

text \<open>
  \<open>int(s)\<close> for an ASCII string without white space: an optional sign, then decimal
  digits, single underscores allowed between digits.
\<close>

definition is_digit :: "char \<Rightarrow> bool" where
  "is_digit c = (let n = (of_char c :: nat) in 48 \<le> n \<and> n \<le> 57)"

definition digits_value :: "string \<Rightarrow> int" where
  "digits_value ds = fold (\<lambda>c n. 10 * n + (of_char c - 48)) ds 0"

definition demo_int :: "string \<Rightarrow> int option" where
  "demo_int s =
     (let body = (if startswith s ''+'' \<or> startswith s ''-'' then drop 1 s else s);
          groups = split_on CHR ''_'' body
      in if list_all (\<lambda>g. g \<noteq> [] \<and> list_all is_digit g) groups
         then Some ((if startswith s ''-'' then -1 else 1) * digits_value (concat groups))
         else None)"

text \<open>The node of \<open>def x(): ...\<close> on one line: \<open>len\<close> bytes from byte \<open>off\<close>, on row \<open>row\<close>.\<close>

definition def_node :: "nat \<Rightarrow> nat \<Rightarrow> nat \<Rightarrow> node" where
  "def_node off row len =
     Node ''function_definition'' off (off + len) row row
       [Node ''def'' off (off + 3) row row [],
        Node ''identifier'' (off + 4) (off + 5) row row [],
        Node ''parameters'' (off + 5) (off + 7) row row [],
        Node '':'' (off + 7) (off + 8) row row [],
        Node ''block'' (off + 9) (off + len) row row []]"

definition src_f :: string where
  "src_f = ''def f(): pass''"

definition src_f_newline :: string where
  "src_f_newline = ''def f(): pass'' @ [CHR 0x0A]"

definition src_f_edited :: string where
  "src_f_edited = ''def f(): return 1''"

definition src_fg :: string where
  "src_fg = ''def f(): pass'' @ [CHR 0x0A] @ ''def g(): pass''"

definition src_f_edited_g :: string where
  "src_f_edited_g = ''def f(): return 1'' @ [CHR 0x0A] @ ''def g(): pass''"

definition src_fg_newline :: string where
  "src_fg_newline = src_fg @ [CHR 0x0A]"

text \<open>
  A function whose string literal holds the Latin-1 byte of an accented letter: the file
  as committed, ending in a newline; the file in the working tree, with an empty line
  added at the end; and the file as \<open>repo.git.show\<close> and \<open>encode\<close> return it.
\<close>

definition src_latin1 :: string where
  "src_latin1 = ''def f(): return '' @ [CHR 0x27, CHR 0xE9, CHR 0x27]"

definition src_latin1_before :: string where
  "src_latin1_before = src_latin1 @ [CHR 0x0A]"

definition src_latin1_after :: string where
  "src_latin1_after = src_latin1 @ [CHR 0x0A, CHR 0x0A]"

definition src_latin1_shown :: string where
  "src_latin1_shown = ''def f(): return '' @ [CHR 0x27, CHR ''?'', CHR 0x27]"

definition demo_parse :: "string \<Rightarrow> string \<Rightarrow> node" where
  "demo_parse lang content =
     (if content = src_f then Node ''module'' 0 13 0 0 [def_node 0 0 13]
      else if content = src_f_newline then Node ''module'' 0 14 0 1 [def_node 0 0 13]
      else if content = src_f_edited then Node ''module'' 0 17 0 0 [def_node 0 0 17]
      else if content = src_fg then
        Node ''module'' 0 27 0 1 [def_node 0 0 13, def_node 14 1 13]
      else if content = src_f_edited_g then
        Node ''module'' 0 31 0 1 [def_node 0 0 17, def_node 18 1 13]
      else if content = src_fg_newline then
        Node ''module'' 0 28 0 2 [def_node 0 0 13, def_node 14 1 13]
      else if content = src_latin1_shown then Node ''module'' 0 19 0 0 [def_node 0 0 19]
      else if content = src_latin1_after then Node ''module'' 0 21 0 2 [def_node 0 0 19]
      else Node ''module'' 0 (length content) 0 0 [])"

definition demo_env :: env where
  "demo_env =
     \<lparr>repo_path = ''/repo'', languages = [''python''],
      relpath = demo_relpath, str_split = demo_split, str_int = demo_int,
      ts_parse = demo_parse,
      read_file = (\<lambda>p. None), git_show = (\<lambda>s. None),
      commit_resolves = (\<lambda>c. True),
      git_diff_name_status = (\<lambda>b a. []),
      git_diff_unified = (\<lambda>b a p. Some []),
      push_commits = (''c0'', ''c1''),
      head_timestamp = ''2024-01-01T00:00:00+00:00''\<rparr>"

definition empty_state :: run_state where
  "empty_state =
     \<lparr>added_elements = [], modified_elements = [], deleted_elements = [], db_elements = []\<rparr>"

definition el_f :: element where
  "el_f = \<lparr>el_type = ''function'', el_name = ''f'', el_start_line = 1, el_end_line = 1,
           el_code = ''def f(): pass'', el_file_path = ''a.py''\<rparr>"

definition empty_db :: database where
  "empty_db = \<lparr>elements = [], last_processed_commit = None\<rparr>"

text \<open>The file \<open>a.py\<close>, holding one function, was added between \<open>c0\<close> and \<open>c1\<close>.\<close>

definition added_env :: env where
  "added_env = demo_env
     \<lparr>git_diff_name_status := (\<lambda>b a. [''A'' @ [CHR 0x09] @ ''a.py'']),
      read_file := (\<lambda>p. if p = ''/repo/a.py'' then Some src_f else None)\<rparr>"

text \<open>
  The file \<open>a.py\<close> was modified between \<open>c0\<close> and \<open>c1\<close> by appending a newline: its
  one function has the same text in both snapshots.
\<close>

definition unchanged_env :: env where
  "unchanged_env = demo_env
     \<lparr>git_diff_name_status := (\<lambda>b a. [''M'' @ [CHR 0x09] @ ''a.py'']),
      git_show := (\<lambda>s. if s = ''c0:a.py'' then Some src_f else None),
      read_file := (\<lambda>p. if p = ''/repo/a.py'' then Some src_f_newline else None)\<rparr>"

text \<open>
  The file \<open>a.py\<close> was modified between \<open>c0\<close> and \<open>c1\<close>: the body of \<open>f\<close> was edited
  and a function \<open>g\<close> was added.
\<close>

definition edited_env :: env where
  "edited_env = demo_env
     \<lparr>git_diff_name_status := (\<lambda>b a. [''M'' @ [CHR 0x09] @ ''a.py'']),
      git_show := (\<lambda>s. if s = ''c0:a.py'' then Some src_f else None),
      read_file := (\<lambda>p. if p = ''/repo/a.py'' then Some src_f_edited_g else None)\<rparr>"

definition el_f_edited :: element where
  "el_f_edited =
     \<lparr>el_type = ''function'', el_name = ''f'', el_start_line = 1, el_end_line = 1,
      el_code = ''def f(): return 1'', el_file_path = ''a.py''\<rparr>"

definition el_g :: element where
  "el_g = \<lparr>el_type = ''function'', el_name = ''g'', el_start_line = 2, el_end_line = 2,
           el_code = ''def g(): pass'', el_file_path = ''a.py''\<rparr>"

text \<open>The digests of \<open>a.py:f:function\<close> and \<open>a.py:g:function\<close>.\<close>

definition id_f :: string where
  "id_f = ''cfccf22002de36557dad2a0c36489c63''"

definition id_g :: string where
  "id_g = ''272679cef6e4c69abfeda3af815e96b8''"

text \<open>
  A database left by earlier runs: \<open>f\<close> and \<open>g\<close> of \<open>a.py\<close> were once added and later
  marked deleted.
\<close>

definition stale_state :: run_state where
  "stale_state =
     \<lparr>added_elements = [], modified_elements = [], deleted_elements = [],
      db_elements =
        [(id_f, [(''type'', ''function''), (''name'', ''f''), (''file_path'', ''a.py''),
                 (''code'', ''def f(): 0''), (''added_at'', ''b0''), (''deleted_at'', ''b1'')]),
         (id_g, [(''type'', ''function''), (''name'', ''g''), (''file_path'', ''a.py''),
                 (''code'', ''def g(): 0''), (''last_modified'', ''b0''),
                 (''deleted_at'', ''b1'')])]\<rparr>"

text \<open>
  The file \<open>old.py\<close>, holding two functions and ending in a newline, was renamed to
  \<open>new.py\<close> between \<open>c0\<close> and \<open>c1\<close>, its content unchanged.
\<close>

definition rename_env :: env where
  "rename_env = demo_env
     \<lparr>git_diff_name_status :=
        (\<lambda>b a. [''R100'' @ [CHR 0x09] @ ''old.py'' @ [CHR 0x09] @ ''new.py'']),
      git_show := (\<lambda>s. if s = ''c0:old.py'' then Some src_fg_newline else None),
      read_file := (\<lambda>p. if p = ''/repo/new.py'' then Some src_fg_newline else None)\<rparr>"

text \<open>The same rename, seen from a before revision that does not resolve to a commit.\<close>

definition rename_from_tree_env :: env where
  "rename_from_tree_env = rename_env\<lparr>commit_resolves := (\<lambda>c. False)\<rparr>"

definition el_old_f :: element where
  "el_old_f = \<lparr>el_type = ''function'', el_name = ''f'', el_start_line = 1, el_end_line = 1,
               el_code = ''def f(): pass'', el_file_path = ''old.py''\<rparr>"

text \<open>
  The Latin-1 file \<open>a.py\<close> was modified between \<open>c0\<close> and \<open>c1\<close> by adding an empty line
  at its end: the bytes of its one function are the same in both revisions.
\<close>

definition latin1_env :: env where
  "latin1_env = demo_env
     \<lparr>git_diff_name_status := (\<lambda>b a. [''M'' @ [CHR 0x09] @ ''a.py'']),
      git_show := (\<lambda>s. if s = ''c0:a.py'' then Some src_latin1_before else None),
      read_file := (\<lambda>p. if p = ''/repo/a.py'' then Some src_latin1_after else None)\<rparr>"

definition el_f_latin1 :: element where
  "el_f_latin1 =
     \<lparr>el_type = ''function'', el_name = ''f'', el_start_line = 1, el_end_line = 1,
      el_code = ''def f(): return '' @ [CHR 0x27, CHR 0xEF, CHR 0xBF, CHR 0xBD, CHR 0x27],
      el_file_path = ''a.py''\<rparr>"

section \<open>What one modified file contributes\<close>

text \<open>
  The elements a modified file adds to the three lists, written as filters over the two
  dictionaries of the file; the lemmas below show that the loops compute them.
\<close>

definition file_added :: "env \<Rightarrow> string \<Rightarrow> string \<Rightarrow> element list" where
  "file_added e before_commit file_path =
     map snd (filter
       (\<lambda>it. map_of (elements_map e (parse_file_at_commit e file_path before_commit)) (fst it) = None)
       (elements_map e (parse_file e file_path None)))"

definition file_modified :: "env \<Rightarrow> string \<Rightarrow> string \<Rightarrow> element list" where
  "file_modified e before_commit file_path =
     map snd (filter
       (\<lambda>it. case map_of (elements_map e (parse_file_at_commit e file_path before_commit)) (fst it) of
               None \<Rightarrow> False
             | Some b \<Rightarrow> el_code b \<noteq> el_code (snd it))
       (elements_map e (parse_file e file_path None)))"

definition file_deleted :: "env \<Rightarrow> string \<Rightarrow> string \<Rightarrow> element list" where
  "file_deleted e before_commit file_path =
     map snd (filter
       (\<lambda>it. map_of (elements_map e (parse_file e file_path None)) (fst it) = None)
       (elements_map e (parse_file_at_commit e file_path before_commit)))"

section \<open>The example repositories, evaluated\<close>

lemma md5_a_f: "md5_hexdigest ''a.py:f:function'' = id_f"
  by code_simp

lemma md5_a_g: "md5_hexdigest ''a.py:g:function'' = id_g"
  by code_simp

lemma demo_ids:
  assumes "relpath e = demo_relpath" and "repo_path e = ''/repo''"
  shows "generate_element_id e el_f = id_f"
    and "generate_element_id e el_f_edited = id_f"
    and "generate_element_id e el_g = id_g"
  using assms
  by (simp_all add: generate_element_id_def unique_str_def el_f_def el_f_edited_def el_g_def
      demo_relpath_def startswith_def md5_a_f md5_a_g)

lemma unchanged_env_maps:
  "elements_map unchanged_env (parse_file_at_commit unchanged_env ''/repo/a.py'' ''c0'')
     = [(id_f, el_f)]"
  "elements_map unchanged_env (parse_file unchanged_env ''/repo/a.py'' None) = [(id_f, el_f)]"
proof -
  have b: "parse_file_at_commit unchanged_env ''/repo/a.py'' ''c0'' = [el_f]"
    by code_simp
  have a: "parse_file unchanged_env ''/repo/a.py'' None = [el_f]"
    by code_simp
  have r: "relpath unchanged_env = demo_relpath" "repo_path unchanged_env = ''/repo''"
    by (simp_all add: unchanged_env_def demo_env_def)
  show "elements_map unchanged_env (parse_file_at_commit unchanged_env ''/repo/a.py'' ''c0'')
     = [(id_f, el_f)]"
    by (simp add: b elements_map_def demo_ids [OF r])
  show "elements_map unchanged_env (parse_file unchanged_env ''/repo/a.py'' None) = [(id_f, el_f)]"
    by (simp add: a elements_map_def demo_ids [OF r])
qed

lemma edited_env_maps:
  "elements_map edited_env (parse_file_at_commit edited_env ''/repo/a.py'' ''c0'')
     = [(id_f, el_f)]"
  "elements_map edited_env (parse_file edited_env ''/repo/a.py'' None)
     = [(id_f, el_f_edited), (id_g, el_g)]"
proof -
  have b: "parse_file_at_commit edited_env ''/repo/a.py'' ''c0'' = [el_f]"
    by code_simp
  have a: "parse_file edited_env ''/repo/a.py'' None = [el_f_edited, el_g]"
    by code_simp
  have r: "relpath edited_env = demo_relpath" "repo_path edited_env = ''/repo''"
    by (simp_all add: edited_env_def demo_env_def)
  have ne: "id_f \<noteq> id_g"
    by (simp add: id_f_def id_g_def)
  show "elements_map edited_env (parse_file_at_commit edited_env ''/repo/a.py'' ''c0'')
     = [(id_f, el_f)]"
    by (simp add: b elements_map_def demo_ids [OF r])
  show "elements_map edited_env (parse_file edited_env ''/repo/a.py'' None)
     = [(id_f, el_f_edited), (id_g, el_g)]"
    using ne by (simp add: a elements_map_def demo_ids [OF r])
qed

section \<open>The codec model\<close>

text \<open>What CPython returns for some byte strings that are not UTF-8.\<close>

lemma decode_replace_examples:
  "decode_replace [CHR 0xE2, CHR 0x82, CHR ''A''] = [CHR 0xEF, CHR 0xBF, CHR 0xBD, CHR ''A'']"
  "decode_replace [CHR 0xC3, CHR 0xA9] = [CHR 0xC3, CHR 0xA9]"
  "decode_replace [CHR 0xED, CHR 0xA0, CHR 0x80]
     = [CHR 0xEF, CHR 0xBF, CHR 0xBD, CHR 0xEF, CHR 0xBF, CHR 0xBD, CHR 0xEF, CHR 0xBF, CHR 0xBD]"
  "decode_replace [CHR 0xF0, CHR 0x9F, CHR 0x98] = [CHR 0xEF, CHR 0xBF, CHR 0xBD]"
  by code_simp+

lemma stdout_bytes_examples:
  "stdout_bytes [CHR 0xE2, CHR 0x82, CHR ''A''] = ''??A''"
  "stdout_bytes (''caf'' @ [CHR 0xE9, CHR 0x0A]) = ''caf?''"
  "stdout_bytes [CHR 0xF0, CHR 0x9F, CHR 0x98] = ''???''"
  by code_simp+

section \<open>The MD5 model\<close>

text \<open>Two of the test vectors of RFC 1321, the second one two blocks long.\<close>

lemma md5_empty: "md5_hexdigest [] = ''d41d8cd98f00b204e9800998ecf8427e''"
  by code_simp

lemma md5_two_blocks:
  "md5_hexdigest
     ''12345678901234567890123456789012345678901234567890123456789012345678901234567890''
     = ''57edf4a22be3c955ac49da2e2107b67a''"
  by code_simp

lemma le_bytes_length: "length (le_bytes n x) = n"
  by (simp add: le_bytes_def)

lemma md5_digest_length: "length (md5_digest s) = 16"
  by (simp add: md5_digest_def Let_def le_bytes_length split: prod.splits)

lemma length_concat_const:
  "(\<And>x. x \<in> set xs \<Longrightarrow> length (f x) = n) \<Longrightarrow> length (concat (map f xs)) = n * length xs"
  by (induction xs) auto

lemma md5_hexdigest_length: "length (md5_hexdigest s) = 32"
  by (simp add: md5_hexdigest_def length_concat_const [where n = 2] hex_byte_def
      md5_digest_length)

lemma hex_digit_range: "0 \<le> n \<Longrightarrow> n < 16 \<Longrightarrow> hex_digit n \<in> set ''0123456789abcdef''"
  unfolding hex_digit_def by (rule nth_mem) simp

lemma le_bytes_range: "b \<in> set (le_bytes n x) \<Longrightarrow> 0 \<le> b \<and> b < 256"
  by (auto simp: le_bytes_def)

lemma md5_digest_range: "b \<in> set (md5_digest s) \<Longrightarrow> 0 \<le> b \<and> b < 256"
  by (auto simp: md5_digest_def Let_def split: prod.splits dest: le_bytes_range)

lemma hex_byte_chars:
  assumes "0 \<le> b" and "b < 256"
  shows "set (hex_byte b) \<subseteq> set ''0123456789abcdef''"
proof -
  have hi: "0 \<le> b div 16" "b div 16 < 16" using assms by auto
  have lo: "0 \<le> b mod 16" "b mod 16 < 16" by auto
  show ?thesis
    using hex_digit_range [OF hi] hex_digit_range [OF lo] by (simp add: hex_byte_def)
qed

lemma md5_hexdigest_chars: "set (md5_hexdigest s) \<subseteq> set ''0123456789abcdef''"
  using md5_digest_range hex_byte_chars by (fastforce simp: md5_hexdigest_def)

section \<open>Dictionaries built by \<open>AList.update\<close>\<close>

lemma set_update_sub: "set (AList.update k v al) \<subseteq> insert (k, v) (set al)"
  by (induction al) auto

lemma length_update_ge: "length al \<le> length (AList.update k v al)"
  by (induction al) auto

lemma map_of_fold_update:
  "map_of (fold (\<lambda>el. AList.update (g el) el) els m) k =
     (case filter (\<lambda>el. g el = k) els of
        [] \<Rightarrow> map_of m k
      | x # xs \<Rightarrow> Some (last (x # xs)))"
proof (induction els arbitrary: m)
  case Nil
  then show ?case by simp
next
  case (Cons a els)
  show ?case
    by (cases "filter (\<lambda>el. g el = k) els") (auto simp: Cons.IH update_conv')
qed

lemma fold_update_entries:
  "(k, el) \<in> set (fold (\<lambda>el. AList.update (g el) el) els m) \<Longrightarrow>
     (k, el) \<in> set m \<or> (el \<in> set els \<and> g el = k)"
proof (induction els arbitrary: m)
  case Nil
  then show ?case by simp
next
  case (Cons a els)
  from Cons.IH [of "AList.update (g a) a m"] Cons.prems
  have "(k, el) \<in> set (AList.update (g a) a m) \<or> (el \<in> set els \<and> g el = k)" by simp
  then show ?case
    using set_update_sub [of "g a" a m] by auto
qed

lemma fold_update_distinct:
  "distinct (map fst m) \<Longrightarrow> distinct (map fst (fold (\<lambda>el. AList.update (g el) el) els m))"
  by (induction els arbitrary: m) (simp_all add: distinct_update)

lemma elements_map_entries:
  "(k, el) \<in> set (elements_map e els) \<Longrightarrow> el \<in> set els \<and> generate_element_id e el = k"
  using fold_update_entries [of k el "generate_element_id e" els "[]"]
  by (simp add: elements_map_def)

lemma elements_map_distinct: "distinct (map fst (elements_map e els))"
  by (simp add: elements_map_def fold_update_distinct)

section \<open>Properties of the element identity\<close>

text \<open>
  C3. The identity of an element is the MD5 digest, 32 hexadecimal digits (128 bits), of
  \<open>relpath:name:type\<close>. It is a function of the path, the name and the kind alone: the
  source text and the line numbers of the element do not enter it, and neither does
  anything read from a revision (the file contents, the repository, the commit range).
\<close>

theorem element_id_is_digest_of_path_name_kind:
  "generate_element_id e el =
     md5_hexdigest (relpath e (el_file_path el) (repo_path e) @ '':'' @ el_name el @ '':''
                    @ el_type el)
   \<and> length (generate_element_id e el) = 32
   \<and> set (generate_element_id e el) \<subseteq> set ''0123456789abcdef''
   \<and> generate_element_id e (el\<lparr>el_code := c, el_start_line := s, el_end_line := t\<rparr>)
       = generate_element_id e el
   \<and> generate_element_id
        (e\<lparr>git_show := gs, read_file := rf, ts_parse := tp, push_commits := pc\<rparr>) el
       = generate_element_id e el"
proof -
  have "set (generate_element_id e el) \<subseteq> set ''0123456789abcdef''"
    unfolding generate_element_id_def by (rule md5_hexdigest_chars)
  then show ?thesis
    by (simp add: generate_element_id_def unique_str_def md5_hexdigest_length)
qed

text \<open>The identity of the function \<open>f\<close> of \<open>a.py\<close>, whatever its body is.\<close>

theorem element_id_is_digest_of_path_name_kind_witness:
  "generate_element_id demo_env el_f = ''cfccf22002de36557dad2a0c36489c63'' \<and>
   generate_element_id demo_env (el_f\<lparr>el_code := ''def f(): return 1''\<rparr>)
     = ''cfccf22002de36557dad2a0c36489c63''"
proof -
  note T = element_id_is_digest_of_path_name_kind
             [where e = demo_env and el = el_f and c = "''def f(): return 1''"
                and s = "el_start_line el_f" and t = "el_end_line el_f"]
  have r: "relpath demo_env (el_file_path el_f) (repo_path demo_env) = ''a.py''"
    by code_simp
  have n: "el_name el_f = ''f''" "el_type el_f = ''function''"
    by (simp_all add: el_f_def)
  have 1: "generate_element_id demo_env el_f = id_f"
    using T [THEN conjunct1] by (simp add: r n md5_a_f)
  have 2: "generate_element_id demo_env (el_f\<lparr>el_code := ''def f(): return 1''\<rparr>)
             = generate_element_id demo_env el_f"
    using T [THEN conjunct2, THEN conjunct2, THEN conjunct2, THEN conjunct1] by simp
  show ?thesis
    using 1 2 by (simp add: id_f_def)
qed

text \<open>
  C6. The dictionary from identity to element binds an identity to the last element of
  the parse order that has it: of several elements of one file with the same identity,
  the later one overwrites the earlier one.
\<close>

theorem elements_map_later_wins:
  "map_of (elements_map e els) k =
     (case filter (\<lambda>el. generate_element_id e el = k) els of
        [] \<Rightarrow> None
      | x # xs \<Rightarrow> Some (last (x # xs)))"
  by (simp add: elements_map_def map_of_fold_update split: list.splits)

text \<open>
  Two definitions of \<open>f\<close> in \<open>a.py\<close> have the same identity; the dictionary holds the
  second one.
\<close>

theorem elements_map_later_wins_witness:
  "generate_element_id demo_env el_f = generate_element_id demo_env el_f_edited \<and>
   map_of (elements_map demo_env [el_f, el_f_edited]) id_f = Some el_f_edited"
proof -
  have r: "relpath demo_env = demo_relpath" "repo_path demo_env = ''/repo''"
    by (simp_all add: demo_env_def)
  show ?thesis
    using elements_map_later_wins [of demo_env "[el_f, el_f_edited]" id_f]
    by (simp add: demo_ids [OF r])
qed

section \<open>Unsupported files\<close>

text \<open>
  C8. A file whose extension is not in the extension table is skipped by each of the
  three passes: the lists of added, modified and deleted elements and the database are
  returned as they were.
\<close>

theorem unsupported_file_inert:
  "get_file_language file_path = None \<Longrightarrow>
     process_modified_file e before_commit after_commit file_path st = st \<and>
     process_added_file e after_commit file_path st = st \<and>
     process_deleted_file e before_commit after_commit file_path st = st"
  by (simp add: process_modified_file_def process_added_file_def process_deleted_file_def
      language_missing_def)

text \<open>\<open>README.md\<close> is such a file.\<close>

theorem unsupported_file_inert_witness:
  "get_file_language ''/repo/README.md'' = None \<and>
   process_modified_file demo_env ''c0'' ''c1'' ''/repo/README.md'' empty_state = empty_state \<and>
   process_added_file demo_env ''c1'' ''/repo/README.md'' empty_state = empty_state \<and>
   process_deleted_file demo_env ''c0'' ''c1'' ''/repo/README.md'' empty_state = empty_state"
proof -
  have h: "get_file_language ''/repo/README.md'' = None"
    by code_simp
  show ?thesis
    using h unsupported_file_inert [OF h, of demo_env "''c0''" "''c1''" empty_state]
    by simp
qed

section \<open>The affected lines are not read\<close>

lemma node_element_diff_unified:
  "node_element (e\<lparr>git_diff_unified := g\<rparr>) = node_element e"
  by (intro ext) (simp add: node_element_def split: option.splits)

lemma parse_file_diff_unified:
  "parse_file (e\<lparr>git_diff_unified := g\<rparr>) = parse_file e"
  by (intro ext) (simp add: parse_file_def node_element_diff_unified split: option.splits)

lemma parse_file_at_commit_diff_unified:
  "parse_file_at_commit (e\<lparr>git_diff_unified := g\<rparr>) = parse_file_at_commit e"
  by (intro ext)
     (simp add: parse_file_at_commit_def get_file_content_at_commit_def parse_file_diff_unified
        split: option.splits)

lemma generate_element_id_diff_unified:
  "generate_element_id (e\<lparr>git_diff_unified := g\<rparr>) = generate_element_id e"
  by (intro ext) (simp add: generate_element_id_def unique_str_def)

lemma elements_map_diff_unified:
  "elements_map (e\<lparr>git_diff_unified := g\<rparr>) = elements_map e"
  by (intro ext) (simp add: elements_map_def generate_element_id_diff_unified)

lemma language_missing_diff_unified:
  "language_missing (e\<lparr>git_diff_unified := g\<rparr>) = language_missing e"
  by (intro ext) (simp add: language_missing_def split: option.splits)

lemma add_element_diff_unified:
  "add_element (e\<lparr>git_diff_unified := g\<rparr>) = add_element e"
  by (intro ext) (simp add: add_element_def generate_element_id_diff_unified)

lemma delete_element_diff_unified:
  "delete_element (e\<lparr>git_diff_unified := g\<rparr>) = delete_element e"
  by (intro ext) (simp add: delete_element_def generate_element_id_diff_unified)

lemma process_modified_file_diff_unified:
  "process_modified_file (e\<lparr>git_diff_unified := g\<rparr>) = process_modified_file e"
  by (intro ext)
     (simp add: process_modified_file_def language_missing_diff_unified Let_def
        parse_file_diff_unified parse_file_at_commit_diff_unified elements_map_diff_unified)

lemma process_added_file_diff_unified:
  "process_added_file (e\<lparr>git_diff_unified := g\<rparr>) = process_added_file e"
  by (intro ext)
     (simp add: process_added_file_def language_missing_diff_unified add_element_diff_unified
        parse_file_diff_unified)

lemma process_deleted_file_diff_unified:
  "process_deleted_file (e\<lparr>git_diff_unified := g\<rparr>) = process_deleted_file e"
  by (intro ext)
     (simp add: process_deleted_file_def language_missing_diff_unified
        delete_element_diff_unified parse_file_at_commit_diff_unified)

lemma first_commit_line_diff_unified:
  "first_commit_line (e\<lparr>git_diff_unified := g\<rparr>) = first_commit_line e"
  by (intro ext) (simp add: first_commit_line_def Let_def)

lemma diff_line_diff_unified:
  "diff_line (e\<lparr>git_diff_unified := g\<rparr>) = diff_line e"
  by (intro ext) (simp add: diff_line_def Let_def)

lemma get_affected_files_diff_unified:
  "get_affected_files (e\<lparr>git_diff_unified := g\<rparr>) = get_affected_files e"
  by (intro ext)
     (simp add: get_affected_files_def Let_def first_commit_line_diff_unified
        diff_line_diff_unified)

lemma classify_files_diff_unified:
  "classify_files (e\<lparr>git_diff_unified := g\<rparr>) db = classify_files e db"
  by (simp add: classify_files_def Let_def process_modified_file_diff_unified
      process_added_file_diff_unified process_deleted_file_diff_unified
      get_affected_files_diff_unified)

text \<open>
  C2. The report and the saved database do not depend on the per-file line diff from
  which \<open>_get_affected_lines\<close> computes the affected lines: whatever that diff is (and
  so whatever set of lines is computed from it), the run returns the same result. Every
  element of the after-snapshot is classified, whether or not its lines are in the set.
\<close>

theorem affected_lines_ignored:
  "analyze_repo_changes (e\<lparr>git_diff_unified := g\<rparr>) db = analyze_repo_changes e db"
  by (simp add: analyze_repo_changes_def Let_def classify_files_diff_unified)

section \<open>The three lists after each loop\<close>

lemma fold_appends:
  assumes "\<And>x st. sel (step x st) = sel st @ F x"
  shows "sel (fold step xs st) = sel st @ concat (map F xs)"
  by (induction xs arbitrary: st) (simp_all add: assms)

lemma fold_keeps:
  assumes "\<And>x st. sel (step x st) = sel st"
  shows "sel (fold step xs st) = sel st"
  by (induction xs arbitrary: st) (simp_all add: assms)

lemma parse_file_missing:
  "language_missing e (get_file_language file_path) \<Longrightarrow> parse_file e file_path c = []"
  by (auto simp: language_missing_def parse_file_def split: option.splits)

lemma parse_file_at_commit_missing:
  "language_missing e (get_file_language file_path) \<Longrightarrow> parse_file_at_commit e file_path c = []"
  by (simp add: parse_file_at_commit_def parse_file_missing split: option.splits)

lemma elements_map_Nil: "elements_map e [] = []"
  by (simp add: elements_map_def)

lemma fold_classify_after_added:
  "added_elements (fold (classify_after a bm) items st) =
     added_elements st @ map snd (filter (\<lambda>it. map_of bm (fst it) = None) items)"
  by (induction items arbitrary: st)
     (simp_all add: classify_after_def Let_def split: option.splits)

lemma fold_classify_after_modified:
  "modified_elements (fold (classify_after a bm) items st) =
     modified_elements st @ map snd (filter
       (\<lambda>it. case map_of bm (fst it) of None \<Rightarrow> False | Some b \<Rightarrow> el_code b \<noteq> el_code (snd it))
       items)"
  by (induction items arbitrary: st)
     (simp_all add: classify_after_def Let_def split: option.splits)

lemma fold_classify_after_deleted:
  "deleted_elements (fold (classify_after a bm) items st) = deleted_elements st"
  by (induction items arbitrary: st)
     (simp_all add: classify_after_def Let_def split: option.splits)

lemma fold_classify_before_added:
  "added_elements (fold (classify_before a am) items st) = added_elements st"
  by (induction items arbitrary: st) (simp_all add: classify_before_def Let_def)

lemma fold_classify_before_modified:
  "modified_elements (fold (classify_before a am) items st) = modified_elements st"
  by (induction items arbitrary: st) (simp_all add: classify_before_def Let_def)

lemma fold_classify_before_deleted:
  "deleted_elements (fold (classify_before a am) items st) =
     deleted_elements st @ map snd (filter (\<lambda>it. map_of am (fst it) = None) items)"
  by (induction items arbitrary: st) (simp_all add: classify_before_def Let_def)

lemmas fold_classify_after_lists =
  fold_classify_after_added fold_classify_after_modified fold_classify_after_deleted

lemmas fold_classify_before_lists =
  fold_classify_before_added fold_classify_before_modified fold_classify_before_deleted

lemma process_modified_file_lists:
  "added_elements (process_modified_file e bc ac fp st) = added_elements st @ file_added e bc fp"
  "modified_elements (process_modified_file e bc ac fp st) =
     modified_elements st @ file_modified e bc fp"
  "deleted_elements (process_modified_file e bc ac fp st) =
     deleted_elements st @ file_deleted e bc fp"
  by (simp_all add: process_modified_file_def Let_def fold_classify_after_lists
      fold_classify_before_lists file_added_def file_modified_def file_deleted_def
      parse_file_missing parse_file_at_commit_missing elements_map_Nil)

lemma add_element_lists:
  "added_elements (add_element e a el st) = added_elements st @ [el]"
  "modified_elements (add_element e a el st) = modified_elements st"
  "deleted_elements (add_element e a el st) = deleted_elements st"
  by (simp_all add: add_element_def Let_def)

lemma delete_element_lists:
  "added_elements (delete_element e a el st) = added_elements st"
  "modified_elements (delete_element e a el st) = modified_elements st"
  "deleted_elements (delete_element e a el st) = deleted_elements st @ [el]"
  by (simp_all add: delete_element_def Let_def)

lemma concat_map_single: "concat (map (\<lambda>x. [x]) xs) = xs"
  by (induction xs) simp_all

lemma process_added_file_lists:
  "added_elements (process_added_file e ac fp st) = added_elements st @ parse_file e fp None"
  "modified_elements (process_added_file e ac fp st) = modified_elements st"
  "deleted_elements (process_added_file e ac fp st) = deleted_elements st"
  using fold_appends [of added_elements "add_element e ac" "\<lambda>x. [x]", OF add_element_lists(1)]
        fold_keeps [of modified_elements "add_element e ac", OF add_element_lists(2)]
        fold_keeps [of deleted_elements "add_element e ac", OF add_element_lists(3)]
  by (simp_all add: process_added_file_def parse_file_missing concat_map_single)

lemma process_deleted_file_lists:
  "added_elements (process_deleted_file e bc ac fp st) = added_elements st"
  "modified_elements (process_deleted_file e bc ac fp st) = modified_elements st"
  "deleted_elements (process_deleted_file e bc ac fp st) =
     deleted_elements st @ parse_file_at_commit e fp bc"
  using fold_keeps [of added_elements "delete_element e ac", OF delete_element_lists(1)]
        fold_keeps [of modified_elements "delete_element e ac", OF delete_element_lists(2)]
        fold_appends [of deleted_elements "delete_element e ac" "\<lambda>x. [x]", OF delete_element_lists(3)]
  by (simp_all add: process_deleted_file_def parse_file_at_commit_missing concat_map_single)

lemma classify_files_lists:
  "added_elements (classify_files e db) =
     (let bc = fst (push_commits e); af = get_affected_files e bc (snd (push_commits e))
      in concat (map (file_added e bc) (af_modified af))
         @ concat (map (\<lambda>fp. parse_file e fp None) (af_added af)))"
  "modified_elements (classify_files e db) =
     (let bc = fst (push_commits e); af = get_affected_files e bc (snd (push_commits e))
      in concat (map (file_modified e bc) (af_modified af)))"
  "deleted_elements (classify_files e db) =
     (let bc = fst (push_commits e); af = get_affected_files e bc (snd (push_commits e))
      in concat (map (file_deleted e bc) (af_modified af))
         @ concat (map (\<lambda>fp. parse_file_at_commit e fp bc) (af_deleted af)))"
proof -
  let ?bc = "fst (push_commits e)" and ?ac = "snd (push_commits e)"
  have m: "\<And>xs st. added_elements (fold (process_modified_file e ?bc ?ac) xs st)
               = added_elements st @ concat (map (file_added e ?bc) xs)"
          "\<And>xs st. modified_elements (fold (process_modified_file e ?bc ?ac) xs st)
               = modified_elements st @ concat (map (file_modified e ?bc) xs)"
          "\<And>xs st. deleted_elements (fold (process_modified_file e ?bc ?ac) xs st)
               = deleted_elements st @ concat (map (file_deleted e ?bc) xs)"
    by (rule fold_appends, rule process_modified_file_lists)+
  have a: "\<And>xs st. added_elements (fold (process_added_file e ?ac) xs st)
               = added_elements st @ concat (map (\<lambda>fp. parse_file e fp None) xs)"
          "\<And>xs st. modified_elements (fold (process_added_file e ?ac) xs st) = modified_elements st"
          "\<And>xs st. deleted_elements (fold (process_added_file e ?ac) xs st) = deleted_elements st"
    by (rule fold_appends fold_keeps, rule process_added_file_lists)+
  have d: "\<And>xs st. added_elements (fold (process_deleted_file e ?bc ?ac) xs st) = added_elements st"
          "\<And>xs st. modified_elements (fold (process_deleted_file e ?bc ?ac) xs st) = modified_elements st"
          "\<And>xs st. deleted_elements (fold (process_deleted_file e ?bc ?ac) xs st)
               = deleted_elements st @ concat (map (\<lambda>fp. parse_file_at_commit e fp ?bc) xs)"
    by (rule fold_appends fold_keeps, rule process_deleted_file_lists)+
  show "added_elements (classify_files e db) =
     (let bc = fst (push_commits e); af = get_affected_files e bc (snd (push_commits e))
      in concat (map (file_added e bc) (af_modified af))
         @ concat (map (\<lambda>fp. parse_file e fp None) (af_added af)))"
    by (simp add: classify_files_def Let_def m a d)
  show "modified_elements (classify_files e db) =
     (let bc = fst (push_commits e); af = get_affected_files e bc (snd (push_commits e))
      in concat (map (file_modified e bc) (af_modified af)))"
    by (simp add: classify_files_def Let_def m a d)
  show "deleted_elements (classify_files e db) =
     (let bc = fst (push_commits e); af = get_affected_files e bc (snd (push_commits e))
      in concat (map (file_deleted e bc) (af_modified af))
         @ concat (map (\<lambda>fp. parse_file_at_commit e fp bc) (af_deleted af)))"
    by (simp add: classify_files_def Let_def m a d)
qed

section \<open>Running the analyzer again\<close>

text \<open>
  C1 as the claim states it fails: the classification compares the two revisions and
  never reads the database. In the repository where \<open>a.py\<close> with one function was
  added between \<open>c0\<close> and \<open>c1\<close>, the second run over \<open>(c0, c1)\<close>, started from the
  database the first run saved, reports that function as added again.
\<close>

theorem rerun_not_empty_counterexample:
  "rp_added (fst (analyze_repo_changes added_env
      (snd (analyze_repo_changes added_env empty_db)))) = [el_f]"
  by code_simp

text \<open>
  C1, amended. A second run over the same range with unchanged files, started from the
  database the first run saved, reports the same added, modified and deleted elements
  as the first run.
\<close>

theorem rerun_reports_same_changeset:
  "rp_added (fst (analyze_repo_changes e (snd (analyze_repo_changes e db))))
     = rp_added (fst (analyze_repo_changes e db)) \<and>
   rp_modified (fst (analyze_repo_changes e (snd (analyze_repo_changes e db))))
     = rp_modified (fst (analyze_repo_changes e db)) \<and>
   rp_deleted (fst (analyze_repo_changes e (snd (analyze_repo_changes e db))))
     = rp_deleted (fst (analyze_repo_changes e db))"
  by (simp add: analyze_repo_changes_def Let_def classify_files_lists)


lemma file_added_sub: "set (file_added e bc fp) \<subseteq> set (parse_file e fp None)"
  using elements_map_entries by (fastforce simp: file_added_def)

lemma file_modified_sub: "set (file_modified e bc fp) \<subseteq> set (parse_file e fp None)"
  using elements_map_entries by (fastforce simp: file_modified_def)

lemma file_deleted_sub: "set (file_deleted e bc fp) \<subseteq> set (parse_file_at_commit e fp bc)"
  using elements_map_entries by (fastforce simp: file_deleted_def)

section \<open>Which snapshot a reported element comes from\<close>

text \<open>
  C9. Every element the run reports as deleted is an element parsed from the before
  revision of a modified or deleted file, as parsed there (with that revision's source
  text and line numbers); every element reported as added is an element parsed from the
  after snapshot of a modified or added file, and every element reported as modified is
  an element parsed from the after snapshot of a modified file.
\<close>

theorem classified_elements_snapshots:
  "(let bc = fst (push_commits e);
        af = get_affected_files e bc (snd (push_commits e));
        r = fst (analyze_repo_changes e db)
    in set (rp_deleted r)
         \<subseteq> (\<Union>fp \<in> set (af_modified af) \<union> set (af_deleted af). set (parse_file_at_commit e fp bc)) \<and>
       set (rp_added r)
         \<subseteq> (\<Union>fp \<in> set (af_modified af) \<union> set (af_added af). set (parse_file e fp None)) \<and>
       set (rp_modified r)
         \<subseteq> (\<Union>fp \<in> set (af_modified af). set (parse_file e fp None)))"
proof -
  let ?bc = "fst (push_commits e)"
  let ?af = "get_affected_files e ?bc (snd (push_commits e))"
  have a: "set (added_elements (classify_files e (elements db)))
      \<subseteq> (\<Union>fp \<in> set (af_modified ?af) \<union> set (af_added ?af). set (parse_file e fp None))"
    using file_added_sub [of e ?bc]
    by (simp add: classify_files_lists Let_def) blast
  have m: "set (modified_elements (classify_files e (elements db)))
      \<subseteq> (\<Union>fp \<in> set (af_modified ?af). set (parse_file e fp None))"
    using file_modified_sub [of e ?bc]
    by (simp add: classify_files_lists Let_def) blast
  have d: "set (deleted_elements (classify_files e (elements db)))
      \<subseteq> (\<Union>fp \<in> set (af_modified ?af) \<union> set (af_deleted ?af).
            set (parse_file_at_commit e fp ?bc))"
    using file_deleted_sub [of e ?bc]
    by (simp add: classify_files_lists Let_def) blast
  show ?thesis
    using a m d by (simp add: analyze_repo_changes_def Let_def)
qed

section \<open>The database only grows\<close>

lemma mark_deleted_grows:
  "fst ` set db \<subseteq> fst ` set (mark_deleted k a db) \<and> length db \<le> length (mark_deleted k a db)"
  by (auto simp: mark_deleted_def dom_update length_update_ge split: option.splits)

lemma update_grows:
  "fst ` set db \<subseteq> fst ` set (AList.update k v db) \<and> length db \<le> length (AList.update k v db)"
  by (auto simp: dom_update length_update_ge)

lemma fold_db_grows:
  assumes "\<And>x st. fst ` set (db_elements st) \<subseteq> fst ` set (db_elements (step x st)) \<and>
                    length (db_elements st) \<le> length (db_elements (step x st))"
  shows "fst ` set (db_elements st) \<subseteq> fst ` set (db_elements (fold step xs st)) \<and>
         length (db_elements st) \<le> length (db_elements (fold step xs st))"
proof (induction xs arbitrary: st)
  case Nil
  then show ?case by simp
next
  case (Cons x xs)
  have "fst ` set (db_elements st) \<subseteq> fst ` set (db_elements (fold step xs (step x st)))"
    using assms [of st x] Cons.IH [of "step x st"] by blast
  moreover have "length (db_elements st) \<le> length (db_elements (fold step xs (step x st)))"
    using assms [of st x] Cons.IH [of "step x st"] by linarith
  ultimately show ?case by simp
qed

lemma classify_after_grows:
  "fst ` set (db_elements st) \<subseteq> fst ` set (db_elements (classify_after a bm it st)) \<and>
   length (db_elements st) \<le> length (db_elements (classify_after a bm it st))"
  using update_grows [of "db_elements st"]
  by (simp add: classify_after_def Let_def split: option.splits)

lemma classify_before_grows:
  "fst ` set (db_elements st) \<subseteq> fst ` set (db_elements (classify_before a am it st)) \<and>
   length (db_elements st) \<le> length (db_elements (classify_before a am it st))"
  using mark_deleted_grows [of "db_elements st"]
  by (simp add: classify_before_def Let_def)

lemma add_element_grows:
  "fst ` set (db_elements st) \<subseteq> fst ` set (db_elements (add_element e a el st)) \<and>
   length (db_elements st) \<le> length (db_elements (add_element e a el st))"
  using update_grows [of "db_elements st"]
  by (simp add: add_element_def Let_def)

lemma delete_element_grows:
  "fst ` set (db_elements st) \<subseteq> fst ` set (db_elements (delete_element e a el st)) \<and>
   length (db_elements st) \<le> length (db_elements (delete_element e a el st))"
  using mark_deleted_grows [of "db_elements st"]
  by (simp add: delete_element_def Let_def)

lemma process_modified_file_grows:
  "fst ` set (db_elements st) \<subseteq> fst ` set (db_elements (process_modified_file e bc ac fp st)) \<and>
   length (db_elements st) \<le> length (db_elements (process_modified_file e bc ac fp st))"
proof (cases "language_missing e (get_file_language fp)")
  case True
  then show ?thesis by (simp add: process_modified_file_def)
next
  case False
  let ?bm = "elements_map e (parse_file_at_commit e fp bc)"
  let ?am = "elements_map e (parse_file e fp None)"
  let ?st1 = "fold (classify_after ac ?bm) ?am st"
  have 1: "fst ` set (db_elements st) \<subseteq> fst ` set (db_elements ?st1) \<and>
           length (db_elements st) \<le> length (db_elements ?st1)"
    by (rule fold_db_grows) (rule classify_after_grows)
  have 2: "fst ` set (db_elements ?st1) \<subseteq> fst ` set (db_elements (fold (classify_before ac ?am) ?bm ?st1)) \<and>
           length (db_elements ?st1) \<le> length (db_elements (fold (classify_before ac ?am) ?bm ?st1))"
    by (rule fold_db_grows) (rule classify_before_grows)
  have "process_modified_file e bc ac fp st = fold (classify_before ac ?am) ?bm ?st1"
    using False by (simp add: process_modified_file_def Let_def)
  moreover have "fst ` set (db_elements st)
      \<subseteq> fst ` set (db_elements (fold (classify_before ac ?am) ?bm ?st1))"
    using 1 2 by blast
  moreover have "length (db_elements st)
      \<le> length (db_elements (fold (classify_before ac ?am) ?bm ?st1))"
    using 1 2 by linarith
  ultimately show ?thesis by simp
qed

lemma process_added_file_grows:
  "fst ` set (db_elements st) \<subseteq> fst ` set (db_elements (process_added_file e ac fp st)) \<and>
   length (db_elements st) \<le> length (db_elements (process_added_file e ac fp st))"
proof (cases "language_missing e (get_file_language fp)")
  case True
  then show ?thesis by (simp add: process_added_file_def)
next
  case False
  then show ?thesis
    unfolding process_added_file_def
    by simp (rule fold_db_grows, rule add_element_grows)
qed

lemma process_deleted_file_grows:
  "fst ` set (db_elements st) \<subseteq> fst ` set (db_elements (process_deleted_file e bc ac fp st)) \<and>
   length (db_elements st) \<le> length (db_elements (process_deleted_file e bc ac fp st))"
proof (cases "language_missing e (get_file_language fp)")
  case True
  then show ?thesis by (simp add: process_deleted_file_def)
next
  case False
  then show ?thesis
    unfolding process_deleted_file_def
    by simp (rule fold_db_grows, rule delete_element_grows)
qed

lemma classify_files_grows:
  "fst ` set db \<subseteq> fst ` set (db_elements (classify_files e db)) \<and>
   length db \<le> length (db_elements (classify_files e db))"
proof -
  let ?bc = "fst (push_commits e)" and ?ac = "snd (push_commits e)"
  let ?af = "get_affected_files e ?bc ?ac"
  let ?st0 = "\<lparr>added_elements = [], modified_elements = [], deleted_elements = [],
               db_elements = db\<rparr>"
  let ?st1 = "fold (process_modified_file e ?bc ?ac) (af_modified ?af) ?st0"
  let ?st2 = "fold (process_added_file e ?ac) (af_added ?af) ?st1"
  let ?st3 = "fold (process_deleted_file e ?bc ?ac) (af_deleted ?af) ?st2"
  have 1: "fst ` set (db_elements ?st0) \<subseteq> fst ` set (db_elements ?st1) \<and>
           length (db_elements ?st0) \<le> length (db_elements ?st1)"
    by (rule fold_db_grows) (rule process_modified_file_grows)
  have 2: "fst ` set (db_elements ?st1) \<subseteq> fst ` set (db_elements ?st2) \<and>
           length (db_elements ?st1) \<le> length (db_elements ?st2)"
    by (rule fold_db_grows) (rule process_added_file_grows)
  have 3: "fst ` set (db_elements ?st2) \<subseteq> fst ` set (db_elements ?st3) \<and>
           length (db_elements ?st2) \<le> length (db_elements ?st3)"
    by (rule fold_db_grows) (rule process_deleted_file_grows)
  have k: "fst ` set (db_elements ?st0) \<subseteq> fst ` set (db_elements ?st3)"
    by (rule subset_trans [OF conjunct1 [OF 1] subset_trans [OF conjunct1 [OF 2] conjunct1 [OF 3]]])
  have l: "length (db_elements ?st0) \<le> length (db_elements ?st3)"
    by (rule le_trans [OF conjunct2 [OF 1] le_trans [OF conjunct2 [OF 2] conjunct2 [OF 3]]])
  have eq: "classify_files e db = ?st3"
    by (simp add: classify_files_def Let_def)
  show ?thesis
    unfolding eq using k l by simp
qed

text \<open>
  C7. A run removes no entry of the database: the identities stored after the run
  include those stored before it, the database is at least as long, and
  \<open>stats.total_elements\<close>, the length of the saved database, is at least the length of
  the database the run started from.
\<close>

theorem database_never_shrinks:
  "fst ` set (elements db) \<subseteq> fst ` set (elements (snd (analyze_repo_changes e db))) \<and>
   length (elements db) \<le> length (elements (snd (analyze_repo_changes e db))) \<and>
   stats_total_elements (fst (analyze_repo_changes e db))
     = length (elements (snd (analyze_repo_changes e db))) \<and>
   length (elements db) \<le> stats_total_elements (fst (analyze_repo_changes e db))"
  using classify_files_grows [of "elements db" e]
  by (simp add: analyze_repo_changes_def Let_def)

section \<open>What the database holds after a pass\<close>

lemma mark_deleted_lookup:
  "map_of (mark_deleted k' a db) k =
     (if k = k' then map_option (AList.update ''deleted_at'' a) (map_of db k) else map_of db k)"
  by (auto simp: mark_deleted_def update_conv' split: option.splits)

lemma fold_classify_after_db:
  "distinct (map fst items) \<Longrightarrow>
   map_of (db_elements (fold (classify_after ac bm) items st)) k =
     (case map_of items k of
        None \<Rightarrow> map_of (db_elements st) k
      | Some a \<Rightarrow>
          (case map_of bm k of
             None \<Rightarrow> Some [(''type'', el_type a), (''name'', el_name a),
                            (''file_path'', el_file_path a), (''code'', el_code a),
                            (''added_at'', ac)]
           | Some b \<Rightarrow>
               if el_code b \<noteq> el_code a
               then Some [(''type'', el_type a), (''name'', el_name a),
                          (''file_path'', el_file_path a), (''code'', el_code a),
                          (''last_modified'', ac)]
               else map_of (db_elements st) k))"
proof (induction items arbitrary: st)
  case Nil
  then show ?case by simp
next
  case (Cons it items)
  obtain k' a' where it: "it = (k', a')" by (cases it)
  from Cons.prems it have d: "distinct (map fst items)" and n: "map_of items k' = None"
    by (auto simp: map_of_eq_None_iff)
  have step: "map_of (db_elements (classify_after ac bm (k', a') st)) k =
      (if k = k' then
         (case map_of bm k of
            None \<Rightarrow> Some [(''type'', el_type a'), (''name'', el_name a'),
                           (''file_path'', el_file_path a'), (''code'', el_code a'),
                           (''added_at'', ac)]
          | Some b \<Rightarrow>
              if el_code b \<noteq> el_code a'
              then Some [(''type'', el_type a'), (''name'', el_name a'),
                         (''file_path'', el_file_path a'), (''code'', el_code a'),
                         (''last_modified'', ac)]
              else map_of (db_elements st) k)
       else map_of (db_elements st) k)"
    by (simp add: classify_after_def Let_def update_conv' split: option.splits)
  show ?case
  proof (cases "k = k'")
    case True
    with n step Cons.IH [OF d, of "classify_after ac bm (k', a') st"] it show ?thesis
      by simp
  next
    case False
    with step Cons.IH [OF d, of "classify_after ac bm (k', a') st"] it show ?thesis
      by (simp split: option.splits)
  qed
qed

lemma map_option_update_idem:
  "map_option (AList.update k v) (map_option (AList.update k v) x) = map_option (AList.update k v) x"
  by (cases x) simp_all

lemma fold_classify_before_db:
  "map_of (db_elements (fold (classify_before ac am) items st)) k =
     (if k \<in> fst ` set items \<and> map_of am k = None
      then map_option (AList.update ''deleted_at'' ac) (map_of (db_elements st) k)
      else map_of (db_elements st) k)"
proof (induction items arbitrary: st)
  case Nil
  then show ?case by simp
next
  case (Cons it items)
  have step: "map_of (db_elements (classify_before ac am it st)) k =
      (if k = fst it \<and> map_of am k = None
       then map_option (AList.update ''deleted_at'' ac) (map_of (db_elements st) k)
       else map_of (db_elements st) k)"
    by (auto simp: classify_before_def Let_def mark_deleted_lookup)
  have ih: "map_of (db_elements (fold (classify_before ac am) (it # items) st)) k =
      (if k \<in> fst ` set items \<and> map_of am k = None
       then map_option (AList.update ''deleted_at'' ac)
              (map_of (db_elements (classify_before ac am it st)) k)
       else map_of (db_elements (classify_before ac am it st)) k)"
    using Cons.IH [of "classify_before ac am it st"] by simp
  show ?case
    unfolding ih step by (auto simp: map_option_update_idem)
qed

lemma process_modified_file_db:
  "map_of (db_elements (process_modified_file e bc ac fp st)) k =
     (case map_of (elements_map e (parse_file e fp None)) k of
        Some a \<Rightarrow>
          (case map_of (elements_map e (parse_file_at_commit e fp bc)) k of
             None \<Rightarrow> Some [(''type'', el_type a), (''name'', el_name a),
                            (''file_path'', el_file_path a), (''code'', el_code a),
                            (''added_at'', ac)]
           | Some b \<Rightarrow>
               if el_code b \<noteq> el_code a
               then Some [(''type'', el_type a), (''name'', el_name a),
                          (''file_path'', el_file_path a), (''code'', el_code a),
                          (''last_modified'', ac)]
               else map_of (db_elements st) k)
      | None \<Rightarrow>
          (case map_of (elements_map e (parse_file_at_commit e fp bc)) k of
             None \<Rightarrow> map_of (db_elements st) k
           | Some b \<Rightarrow> map_option (AList.update ''deleted_at'' ac) (map_of (db_elements st) k)))"
proof (cases "language_missing e (get_file_language fp)")
  case True
  then show ?thesis
    by (simp add: process_modified_file_def parse_file_missing parse_file_at_commit_missing
        elements_map_Nil)
next
  case False
  have dom: "\<And>m. (k \<in> fst ` set m) = (map_of m k \<noteq> None)"
    by (simp add: map_of_eq_None_iff)
  from False show ?thesis
    by (simp add: process_modified_file_def Let_def fold_classify_before_db
        fold_classify_after_db [OF elements_map_distinct] dom split: option.splits)
qed

lemma add_element_db:
  "map_of (db_elements (add_element e ac a st)) k =
     (if generate_element_id e a = k
      then Some [(''type'', el_type a), (''name'', el_name a),
                 (''file_path'', el_file_path a), (''code'', el_code a), (''added_at'', ac)]
      else map_of (db_elements st) k)"
  by (simp add: add_element_def Let_def update_conv')

lemma fold_add_element_db:
  "map_of (db_elements (fold (add_element e ac) els st)) k =
     (case filter (\<lambda>el. generate_element_id e el = k) els of
        [] \<Rightarrow> map_of (db_elements st) k
      | x # xs \<Rightarrow>
          Some [(''type'', el_type (last (x # xs))), (''name'', el_name (last (x # xs))),
                (''file_path'', el_file_path (last (x # xs))),
                (''code'', el_code (last (x # xs))), (''added_at'', ac)])"
proof (induction els arbitrary: st)
  case Nil
  then show ?case by simp
next
  case (Cons a els)
  show ?case
    by (cases "filter (\<lambda>el. generate_element_id e el = k) els")
       (auto simp: Cons.IH add_element_db)
qed

section \<open>Elements whose text did not change\<close>

text \<open>
  In the pass over a modified file, an identity that both dictionaries hold, with the
  same \<open>code\<close> text in the before and the after element, is given to none of the three
  lists: the pass appends lists \<open>A\<close>, \<open>M\<close> and \<open>D\<close> to the added, modified and deleted
  elements, no element of them has that identity, and the database holds for that
  identity what it held before the pass. The \<open>code\<close> text is what the two read paths
  make of the bytes of the element, which is not the same thing for both sides when the
  bytes are not UTF-8 (see the next section).
\<close>

lemma equal_text_not_classified:
  assumes "map_of (elements_map e (parse_file_at_commit e fp bc)) k = Some b"
      and "map_of (elements_map e (parse_file e fp None)) k = Some a"
      and "el_code b = el_code a"
  shows "\<exists>A M D.
           added_elements (process_modified_file e bc ac fp st) = added_elements st @ A \<and>
           modified_elements (process_modified_file e bc ac fp st) = modified_elements st @ M \<and>
           deleted_elements (process_modified_file e bc ac fp st) = deleted_elements st @ D \<and>
           k \<notin> generate_element_id e ` set (A @ M @ D) \<and>
           a \<notin> set (A @ M @ D) \<and> b \<notin> set (A @ M @ D) \<and>
           map_of (db_elements (process_modified_file e bc ac fp st)) k
             = map_of (db_elements st) k"
proof -
  let ?bm = "elements_map e (parse_file_at_commit e fp bc)"
  let ?am = "elements_map e (parse_file e fp None)"
  have ent: "\<And>m els k' el. (k', el) \<in> set (elements_map e els) \<Longrightarrow>
               generate_element_id e el = k' \<and> map_of (elements_map e els) k' = Some el"
    using elements_map_entries elements_map_distinct by simp
  have ka: "generate_element_id e a = k" and kb: "generate_element_id e b = k"
    using assms(1,2) elements_map_entries [of k _ e] by (auto dest: map_of_SomeD)
  have A: "k \<notin> generate_element_id e ` set (file_added e bc fp)"
    using assms(1) ent [of _ _ "parse_file e fp None"] by (auto simp: file_added_def)
  have M: "k \<notin> generate_element_id e ` set (file_modified e bc fp)"
    using assms ent [of _ _ "parse_file e fp None"]
    by (auto simp: file_modified_def split: option.splits)
  have D: "k \<notin> generate_element_id e ` set (file_deleted e bc fp)"
    using assms(2) ent [of _ _ "parse_file_at_commit e fp bc"] by (auto simp: file_deleted_def)
  have ids: "k \<notin> generate_element_id e `
      set (file_added e bc fp @ file_modified e bc fp @ file_deleted e bc fp)"
    using A M D by auto
  have db: "map_of (db_elements (process_modified_file e bc ac fp st)) k
      = map_of (db_elements st) k"
    using assms by (simp add: process_modified_file_db)
  have na: "a \<notin> set (file_added e bc fp @ file_modified e bc fp @ file_deleted e bc fp)"
    using ids ka by blast
  have nb: "b \<notin> set (file_added e bc fp @ file_modified e bc fp @ file_deleted e bc fp)"
    using ids kb by blast
  have "added_elements (process_modified_file e bc ac fp st)
          = added_elements st @ file_added e bc fp \<and>
        modified_elements (process_modified_file e bc ac fp st)
          = modified_elements st @ file_modified e bc fp \<and>
        deleted_elements (process_modified_file e bc ac fp st)
          = deleted_elements st @ file_deleted e bc fp \<and>
        k \<notin> generate_element_id e `
          set (file_added e bc fp @ file_modified e bc fp @ file_deleted e bc fp) \<and>
        a \<notin> set (file_added e bc fp @ file_modified e bc fp @ file_deleted e bc fp) \<and>
        b \<notin> set (file_added e bc fp @ file_modified e bc fp @ file_deleted e bc fp) \<and>
        map_of (db_elements (process_modified_file e bc ac fp st)) k
          = map_of (db_elements st) k"
    using ids na nb db process_modified_file_lists [of e bc ac fp st] by blast
  then show ?thesis by blast
qed

text \<open>
  In the repository where \<open>a.py\<close> only got a newline appended, \<open>f\<close> is in both
  dictionaries with the same text.
\<close>

lemma equal_text_not_classified_example:
  "map_of (elements_map unchanged_env
             (parse_file_at_commit unchanged_env ''/repo/a.py'' ''c0'')) id_f = Some el_f \<and>
   map_of (elements_map unchanged_env (parse_file unchanged_env ''/repo/a.py'' None)) id_f
     = Some el_f \<and>
   (\<exists>A M D.
      added_elements (process_modified_file unchanged_env ''c0'' ''c1'' ''/repo/a.py'' stale_state)
        = added_elements stale_state @ A \<and>
      modified_elements (process_modified_file unchanged_env ''c0'' ''c1'' ''/repo/a.py'' stale_state)
        = modified_elements stale_state @ M \<and>
      deleted_elements (process_modified_file unchanged_env ''c0'' ''c1'' ''/repo/a.py'' stale_state)
        = deleted_elements stale_state @ D \<and>
      id_f \<notin> generate_element_id unchanged_env ` set (A @ M @ D) \<and>
      el_f \<notin> set (A @ M @ D) \<and>
      map_of (db_elements
               (process_modified_file unchanged_env ''c0'' ''c1'' ''/repo/a.py'' stale_state)) id_f
        = map_of (db_elements stale_state) id_f)"
proof -
  have b: "map_of (elements_map unchanged_env
             (parse_file_at_commit unchanged_env ''/repo/a.py'' ''c0'')) id_f = Some el_f"
    by (simp add: unchanged_env_maps)
  have a: "map_of (elements_map unchanged_env (parse_file unchanged_env ''/repo/a.py'' None)) id_f
     = Some el_f"
    by (simp add: unchanged_env_maps)
  show ?thesis
    using a b equal_text_not_classified [OF b a refl, of "''c1''" stale_state]
    by blast
qed

section \<open>A function with unchanged bytes that is reported as modified\<close>

text \<open>
  C4 fails on the code for a file that is not UTF-8. The before snapshot is read through
  \<open>repo.git.show\<close> and \<open>encode\<close>, which turn a byte outside UTF-8 into \<open>?\<close>; the after
  snapshot is read as bytes and decoded for each element, which turns it into U+FFFD.
  In the repository where the Latin-1 file \<open>a.py\<close> got an empty line added at its end,
  the function \<open>f\<close> has the same bytes in both revisions, its identity is in both
  dictionaries, and the run reports it as modified and stores a \<open>last_modified\<close> record.
\<close>

theorem latin1_function_reported_modified:
  "git_show latin1_env ''c0:a.py'' = Some src_latin1_before \<and>
   read_file latin1_env ''/repo/a.py'' = Some src_latin1_after \<and>
   slice src_latin1_before 0 19 = slice src_latin1_after 0 19 \<and>
   parse_file_at_commit latin1_env ''/repo/a.py'' ''c0''
     = [el_f_latin1\<lparr>el_code := src_latin1_shown\<rparr>] \<and>
   parse_file latin1_env ''/repo/a.py'' None = [el_f_latin1] \<and>
   rp_added (fst (analyze_repo_changes latin1_env empty_db)) = [] \<and>
   rp_modified (fst (analyze_repo_changes latin1_env empty_db)) = [el_f_latin1] \<and>
   rp_deleted (fst (analyze_repo_changes latin1_env empty_db)) = [] \<and>
   elements (snd (analyze_repo_changes latin1_env empty_db))
     = [(id_f, [(''type'', ''function''), (''name'', ''f''), (''file_path'', ''a.py''),
                (''code'', el_code el_f_latin1), (''last_modified'', ''c1'')])]"
proof -
  have run: "analyze_repo_changes latin1_env empty_db =
      (\<lparr>rp_added = [], rp_modified = [el_f_latin1], rp_deleted = [],
        stats_added = 0, stats_modified = 1, stats_deleted = 0, stats_total_elements = 1,
        meta_repository = ''repo'', meta_before = ''c0'', meta_after = ''c1'',
        meta_timestamp = ''2024-01-01T00:00:00+00:00''\<rparr>,
       \<lparr>elements =
          [(id_f, [(''type'', ''function''), (''name'', ''f''), (''file_path'', ''a.py''),
                   (''code'', el_code el_f_latin1), (''last_modified'', ''c1'')])],
        last_processed_commit = Some ''c1''\<rparr>)"
    by code_simp
  have inputs: "git_show latin1_env ''c0:a.py'' = Some src_latin1_before"
    "read_file latin1_env ''/repo/a.py'' = Some src_latin1_after"
    "slice src_latin1_before 0 19 = slice src_latin1_after 0 19"
    by code_simp+
  have before: "parse_file_at_commit latin1_env ''/repo/a.py'' ''c0''
     = [el_f_latin1\<lparr>el_code := src_latin1_shown\<rparr>]"
    by code_simp
  have after: "parse_file latin1_env ''/repo/a.py'' None = [el_f_latin1]"
    by code_simp
  show ?thesis
    unfolding run fst_conv snd_conv using inputs before after by simp
qed

section \<open>Records written by an upsert\<close>

text \<open>
  C10. After the pass over a modified file the database holds, for an identity of the
  after dictionary that is classified added or modified, exactly the five fields
  \<open>type\<close>, \<open>name\<close>, \<open>file_path\<close>, \<open>code\<close> and \<open>added_at\<close> (added) or \<open>last_modified\<close>
  (modified), taken from the after element: whatever record the identity had before,
  with its \<open>added_at\<close>, \<open>last_modified\<close> or \<open>deleted_at\<close>, is replaced. The same holds
  after the pass over an added file, for the last element of the file with that
  identity. (An identity with unchanged text keeps its record; an identity only in the
  before dictionary gets \<open>deleted_at\<close> added to the record it has, if it has one.)
\<close>

theorem upsert_replaces_record:
  "map_of (db_elements (process_modified_file e bc ac fp st)) k =
     (case map_of (elements_map e (parse_file e fp None)) k of
        Some a \<Rightarrow>
          (case map_of (elements_map e (parse_file_at_commit e fp bc)) k of
             None \<Rightarrow> Some [(''type'', el_type a), (''name'', el_name a),
                            (''file_path'', el_file_path a), (''code'', el_code a),
                            (''added_at'', ac)]
           | Some b \<Rightarrow>
               if el_code b \<noteq> el_code a
               then Some [(''type'', el_type a), (''name'', el_name a),
                          (''file_path'', el_file_path a), (''code'', el_code a),
                          (''last_modified'', ac)]
               else map_of (db_elements st) k)
      | None \<Rightarrow>
          (case map_of (elements_map e (parse_file_at_commit e fp bc)) k of
             None \<Rightarrow> map_of (db_elements st) k
           | Some b \<Rightarrow> map_option (AList.update ''deleted_at'' ac) (map_of (db_elements st) k)))
   \<and>
   map_of (db_elements (process_added_file e ac fp st)) k =
     (case filter (\<lambda>el. generate_element_id e el = k) (parse_file e fp None) of
        [] \<Rightarrow> map_of (db_elements st) k
      | x # xs \<Rightarrow>
          Some [(''type'', el_type (last (x # xs))), (''name'', el_name (last (x # xs))),
                (''file_path'', el_file_path (last (x # xs))),
                (''code'', el_code (last (x # xs))), (''added_at'', ac)])"
proof -
  have "map_of (db_elements (process_added_file e ac fp st)) k =
     (case filter (\<lambda>el. generate_element_id e el = k) (parse_file e fp None) of
        [] \<Rightarrow> map_of (db_elements st) k
      | x # xs \<Rightarrow>
          Some [(''type'', el_type (last (x # xs))), (''name'', el_name (last (x # xs))),
                (''file_path'', el_file_path (last (x # xs))),
                (''code'', el_code (last (x # xs))), (''added_at'', ac)])"
    by (cases "language_missing e (get_file_language fp)")
       (simp_all add: process_added_file_def parse_file_missing fold_add_element_db)
  then show ?thesis
    using process_modified_file_db [of e bc ac fp st k] by simp
qed

text \<open>
  In the repository where \<open>f\<close> was edited and \<open>g\<close> was added, starting from a database
  whose records of \<open>f\<close> and \<open>g\<close> carry \<open>added_at\<close>, \<open>last_modified\<close> and \<open>deleted_at\<close>
  from earlier runs: after the pass the two records have the five fields only.
\<close>

theorem upsert_replaces_record_witness:
  "map_of (db_elements stale_state) id_f =
     Some [(''type'', ''function''), (''name'', ''f''), (''file_path'', ''a.py''),
           (''code'', ''def f(): 0''), (''added_at'', ''b0''), (''deleted_at'', ''b1'')] \<and>
   map_of (db_elements (process_modified_file edited_env ''c0'' ''c1'' ''/repo/a.py'' stale_state))
     id_f =
     Some [(''type'', ''function''), (''name'', ''f''), (''file_path'', ''a.py''),
           (''code'', ''def f(): return 1''), (''last_modified'', ''c1'')] \<and>
   map_of (db_elements (process_modified_file edited_env ''c0'' ''c1'' ''/repo/a.py'' stale_state))
     id_g =
     Some [(''type'', ''function''), (''name'', ''g''), (''file_path'', ''a.py''),
           (''code'', ''def g(): pass''), (''added_at'', ''c1'')]"
proof -
  have ne: "id_g \<noteq> id_f"
    by (simp add: id_f_def id_g_def)
  have 0: "map_of (db_elements stale_state) id_f =
     Some [(''type'', ''function''), (''name'', ''f''), (''file_path'', ''a.py''),
           (''code'', ''def f(): 0''), (''added_at'', ''b0''), (''deleted_at'', ''b1'')]"
    by (simp add: stale_state_def)
  have 1: "map_of (db_elements
             (process_modified_file edited_env ''c0'' ''c1'' ''/repo/a.py'' stale_state)) id_f =
     Some [(''type'', ''function''), (''name'', ''f''), (''file_path'', ''a.py''),
           (''code'', ''def f(): return 1''), (''last_modified'', ''c1'')]"
    using upsert_replaces_record
            [of edited_env "''c0''" "''c1''" "''/repo/a.py''" stale_state id_f, THEN conjunct1]
    by (simp add: edited_env_maps el_f_def el_f_edited_def)
  have 2: "map_of (db_elements
             (process_modified_file edited_env ''c0'' ''c1'' ''/repo/a.py'' stale_state)) id_g =
     Some [(''type'', ''function''), (''name'', ''g''), (''file_path'', ''a.py''),
           (''code'', ''def g(): pass''), (''added_at'', ''c1'')]"
    using ne upsert_replaces_record
            [of edited_env "''c0''" "''c1''" "''/repo/a.py''" stale_state id_g, THEN conjunct1]
    by (simp add: edited_env_maps el_g_def)
  from 0 1 2 show ?thesis by simp
qed

section \<open>Renamed files\<close>

text \<open>
  C5 as the claim states it fails. A renamed file gives as many deleted and added
  elements as it has elements, not exactly one of each: with \<open>old.py\<close>, holding the
  functions \<open>f\<close> and \<open>g\<close>, renamed to \<open>new.py\<close>, the run reports two deleted elements
  under the old path and two added elements under the new path. And when the before
  revision does not resolve to a commit, the branch for a first commit reads only the
  lines with status \<open>A\<close>: the same rename is not reported at all.
\<close>

theorem rename_two_functions_counterexample:
  "map (\<lambda>el. (el_file_path el, el_name el))
       (rp_deleted (fst (analyze_repo_changes rename_env empty_db)))
     = [(''old.py'', ''f''), (''old.py'', ''g'')] \<and>
   map (\<lambda>el. (el_file_path el, el_name el))
       (rp_added (fst (analyze_repo_changes rename_env empty_db)))
     = [(''new.py'', ''f''), (''new.py'', ''g'')] \<and>
   rp_deleted (fst (analyze_repo_changes rename_from_tree_env empty_db)) = [] \<and>
   rp_added (fst (analyze_repo_changes rename_from_tree_env empty_db)) = []"
proof -
  have pc: "push_commits rename_env = (''c0'', ''c1'')"
           "push_commits rename_from_tree_env = (''c0'', ''c1'')"
    by (simp_all add: rename_from_tree_env_def rename_env_def demo_env_def)
  have af: "get_affected_files rename_env ''c0'' ''c1'' =
      \<lparr>af_modified = [], af_added = [''/repo/new.py''], af_deleted = [''/repo/old.py'']\<rparr>"
    by code_simp
  have af': "get_affected_files rename_from_tree_env ''c0'' ''c1'' =
      \<lparr>af_modified = [], af_added = [], af_deleted = []\<rparr>"
    by code_simp
  have d: "map (\<lambda>el. (el_file_path el, el_name el))
             (parse_file_at_commit rename_env ''/repo/old.py'' ''c0'')
           = [(''old.py'', ''f''), (''old.py'', ''g'')]"
    by code_simp
  have a: "map (\<lambda>el. (el_file_path el, el_name el))
             (parse_file rename_env ''/repo/new.py'' None)
           = [(''new.py'', ''f''), (''new.py'', ''g'')]"
    by code_simp
  show ?thesis
    by (simp add: analyze_repo_changes_def Let_def classify_files_lists pc af af' d a)
qed

lemma startswith_R:
  "startswith status ''R'' \<Longrightarrow> status \<noteq> ''M'' \<and> status \<noteq> ''A'' \<and> status \<noteq> ''D''"
  by (auto simp: startswith_def)

lemma diff_line_rename:
  assumes "split_on (CHR 0x09) line = status # old_name # new_name # rest"
      and "startswith status ''R''"
  shows "diff_line e line af =
           af\<lparr>af_deleted := af_deleted af @ [path_join (repo_path e) old_name],
              af_added := af_added af @ [path_join (repo_path e) new_name]\<rparr>"
  using assms startswith_R [OF assms(2)]
  by (simp add: diff_line_def Let_def)

lemma diff_line_modified:
  "af_modified (diff_line e l r) = af_modified r
     @ af_modified (diff_line e l \<lparr>af_modified = [], af_added = [], af_deleted = []\<rparr>)"
  by (simp add: diff_line_def Let_def)

lemma diff_line_added:
  "af_added (diff_line e l r) = af_added r
     @ af_added (diff_line e l \<lparr>af_modified = [], af_added = [], af_deleted = []\<rparr>)"
  by (simp add: diff_line_def Let_def)

lemma diff_line_deleted:
  "af_deleted (diff_line e l r) = af_deleted r
     @ af_deleted (diff_line e l \<lparr>af_modified = [], af_added = [], af_deleted = []\<rparr>)"
  by (simp add: diff_line_def Let_def)

lemma fold_diff_line_split:
  assumes "split_on (CHR 0x09) line = status # old_name # new_name # rest"
      and "startswith status ''R''"
  shows "af_modified (fold (diff_line e) (pre @ line # post) r)
           = af_modified (fold (diff_line e) (pre @ post) r)"
    and "\<exists>xs ys. af_added (fold (diff_line e) (pre @ line # post) r)
           = xs @ path_join (repo_path e) new_name # ys"
    and "\<exists>xs ys. af_deleted (fold (diff_line e) (pre @ line # post) r)
           = xs @ path_join (repo_path e) old_name # ys"
proof -
  let ?r0 = "\<lparr>af_modified = [], af_added = [], af_deleted = []\<rparr>"
  have m: "\<And>ls r. af_modified (fold (diff_line e) ls r)
      = af_modified r @ concat (map (\<lambda>l. af_modified (diff_line e l ?r0)) ls)"
    by (rule fold_appends) (rule diff_line_modified)
  have a: "\<And>ls r. af_added (fold (diff_line e) ls r)
      = af_added r @ concat (map (\<lambda>l. af_added (diff_line e l ?r0)) ls)"
    by (rule fold_appends) (rule diff_line_added)
  have d: "\<And>ls r. af_deleted (fold (diff_line e) ls r)
      = af_deleted r @ concat (map (\<lambda>l. af_deleted (diff_line e l ?r0)) ls)"
    by (rule fold_appends) (rule diff_line_deleted)
  note l = diff_line_rename [OF assms, of e ?r0]
  show "af_modified (fold (diff_line e) (pre @ line # post) r)
           = af_modified (fold (diff_line e) (pre @ post) r)"
    unfolding m by (simp add: l)
  show "\<exists>xs ys. af_added (fold (diff_line e) (pre @ line # post) r)
           = xs @ path_join (repo_path e) new_name # ys"
    unfolding a
    by (intro exI [of _ "af_added r @ concat (map (\<lambda>l. af_added (diff_line e l ?r0)) pre)"]
              exI [of _ "concat (map (\<lambda>l. af_added (diff_line e l ?r0)) post)"])
       (simp add: l)
  show "\<exists>xs ys. af_deleted (fold (diff_line e) (pre @ line # post) r)
           = xs @ path_join (repo_path e) old_name # ys"
    unfolding d
    by (intro exI [of _ "af_deleted r @ concat (map (\<lambda>l. af_deleted (diff_line e l ?r0)) pre)"]
              exI [of _ "concat (map (\<lambda>l. af_deleted (diff_line e l ?r0)) post)"])
       (simp add: l)
qed

lemma map_map_filter:
  "map f (List.map_filter g xs) = List.map_filter (\<lambda>x. map_option f (g x)) xs"
  by (induction xs) (simp_all split: option.splits)

lemma node_element_path:
  "map_option (\<lambda>el. el\<lparr>el_file_path := relpath e p' (repo_path e)\<rparr>) (node_element e p content n)
     = node_element e p' content n"
  by (simp add: node_element_def split: option.splits)

lemma parse_file_path:
  assumes "get_file_language p = get_file_language p'"
  shows "map (\<lambda>el. el\<lparr>el_file_path := relpath e p' (repo_path e)\<rparr>) (parse_file e p (Some content))
     = parse_file e p' (Some content)"
  using assms
  by (simp add: parse_file_def map_map_filter node_element_path split: option.splits)

lemma node_element_file_path:
  "node_element e p content n = Some el \<Longrightarrow> el_file_path el = relpath e p (repo_path e)"
  by (auto simp: node_element_def split: option.splits if_splits)

lemma parse_file_file_path:
  "el \<in> set (parse_file e p c) \<Longrightarrow> el_file_path el = relpath e p (repo_path e)"
  by (auto simp: parse_file_def List.map_filter_def node_element_file_path
      split: option.splits if_splits)

lemma parse_file_at_commit_file_path:
  "el \<in> set (parse_file_at_commit e p c) \<Longrightarrow> el_file_path el = relpath e p (repo_path e)"
  by (auto simp: parse_file_at_commit_def parse_file_file_path split: option.splits if_splits)

lemma concat_map_split:
  "xs = as @ x # bs \<Longrightarrow> concat (map f xs) = concat (map f as) @ f x @ concat (map f bs)"
  by simp

text \<open>
  C5, amended. Let the before revision resolve to a commit and let the name-status diff
  of the range have a line with a status \<open>R...\<close>, an old and a new name. Let the blob
  under the old path at the before commit and the file under the new path in the
  working tree have the same bytes, let both paths have the same language, and let the
  parser extract from what \<open>repo.git.show\<close> returns for these bytes (the final newline
  dropped, bytes outside UTF-8 as \<open>?\<close>) the elements it extracts from the bytes
  themselves. Then the run reports every element parsed from the old path as deleted
  and every element parsed from the new path as added; the rename line puts no element
  on the modified list (the modified elements come from the files that the other lines
  list as modified); and the added elements are the deleted elements, in the same order,
  with only \<open>file_path\<close> replaced: one deleted and one added element for each element
  of the file, with the same source text, name, kind and lines. The identities of such
  a pair are the MD5 digests of \<open>old:name:kind\<close> and \<open>new:name:kind\<close>, two strings
  that differ when the relative paths differ, and the identities are different whenever
  these two digests are.
\<close>

theorem renamed_file_deleted_and_added:
  assumes "push_commits e = (bc, ac)"
      and "commit_resolves e bc"
      and "git_diff_name_status e bc ac = pre @ line # post"
      and "split_on (CHR 0x09) line = status # old_name # new_name # rest"
      and "startswith status ''R''"
      and "old_path = path_join (repo_path e) old_name"
      and "new_path = path_join (repo_path e) new_name"
      and "git_show e (bc @ '':'' @ relpath e old_path (repo_path e)) = Some raw"
      and "read_file e new_path = Some raw"
      and "stdout_bytes raw \<noteq> []"
      and "parse_file e old_path (Some (stdout_bytes raw)) = parse_file e old_path (Some raw)"
      and "get_file_language old_path = get_file_language new_path"
  shows "(\<exists>xs ys. rp_deleted (fst (analyze_repo_changes e db))
                    = xs @ parse_file_at_commit e old_path bc @ ys) \<and>
         (\<exists>xs ys. rp_added (fst (analyze_repo_changes e db))
                    = xs @ parse_file e new_path None @ ys) \<and>
         set (rp_modified (fst (analyze_repo_changes e db)))
           \<subseteq> (\<Union>fp \<in> set (af_modified (fold (diff_line e) (pre @ post)
                                  \<lparr>af_modified = [], af_added = [], af_deleted = []\<rparr>)).
                 set (parse_file e fp None)) \<and>
         parse_file e new_path None
           = map (\<lambda>el. el\<lparr>el_file_path := relpath e new_path (repo_path e)\<rparr>)
               (parse_file_at_commit e old_path bc) \<and>
         (\<forall>el \<in> set (parse_file_at_commit e old_path bc).
            el_file_path el = relpath e old_path (repo_path e) \<and>
            generate_element_id e el
              = md5_hexdigest (relpath e (relpath e old_path (repo_path e)) (repo_path e)
                               @ '':'' @ el_name el @ '':'' @ el_type el) \<and>
            generate_element_id e (el\<lparr>el_file_path := relpath e new_path (repo_path e)\<rparr>)
              = md5_hexdigest (relpath e (relpath e new_path (repo_path e)) (repo_path e)
                               @ '':'' @ el_name el @ '':'' @ el_type el) \<and>
            (relpath e (relpath e old_path (repo_path e)) (repo_path e)
               \<noteq> relpath e (relpath e new_path (repo_path e)) (repo_path e) \<longrightarrow>
             unique_str e el
               \<noteq> unique_str e (el\<lparr>el_file_path := relpath e new_path (repo_path e)\<rparr>)) \<and>
            (md5_hexdigest (relpath e (relpath e old_path (repo_path e)) (repo_path e)
                            @ '':'' @ el_name el @ '':'' @ el_type el)
               \<noteq> md5_hexdigest (relpath e (relpath e new_path (repo_path e)) (repo_path e)
                                @ '':'' @ el_name el @ '':'' @ el_type el) \<longrightarrow>
             generate_element_id e el
               \<noteq> generate_element_id e
                    (el\<lparr>el_file_path := relpath e new_path (repo_path e)\<rparr>)))"
proof -
  let ?r0 = "\<lparr>af_modified = [], af_added = [], af_deleted = []\<rparr>"
  let ?D = "parse_file_at_commit e old_path bc"
  let ?A = "parse_file e new_path None"
  have af: "get_affected_files e bc ac = fold (diff_line e) (pre @ line # post) ?r0"
    using assms(2,3) by (simp add: get_affected_files_def)
  note sp = fold_diff_line_split [OF assms(4,5), of e pre post ?r0]
  have m: "af_modified (get_affected_files e bc ac)
             = af_modified (fold (diff_line e) (pre @ post) ?r0)"
    unfolding af by (rule sp(1))
  obtain dx dy where d: "af_deleted (get_affected_files e bc ac) = dx @ old_path # dy"
    using sp(3) assms(6) unfolding af by blast
  obtain ax ay where a: "af_added (get_affected_files e bc ac) = ax @ new_path # ay"
    using sp(2) assms(7) unfolding af by blast
  have lists:
    "rp_deleted (fst (analyze_repo_changes e db)) =
       concat (map (file_deleted e bc) (af_modified (get_affected_files e bc ac)))
       @ concat (map (\<lambda>fp. parse_file_at_commit e fp bc) (af_deleted (get_affected_files e bc ac)))"
    "rp_added (fst (analyze_repo_changes e db)) =
       concat (map (file_added e bc) (af_modified (get_affected_files e bc ac)))
       @ concat (map (\<lambda>fp. parse_file e fp None) (af_added (get_affected_files e bc ac)))"
    "rp_modified (fst (analyze_repo_changes e db)) =
       concat (map (file_modified e bc) (af_modified (get_affected_files e bc ac)))"
    using assms(1) by (simp_all add: analyze_repo_changes_def Let_def classify_files_lists)
  have 1: "\<exists>xs ys. rp_deleted (fst (analyze_repo_changes e db)) = xs @ ?D @ ys"
    unfolding lists(1) d
    by (intro exI [of _ "concat (map (file_deleted e bc) (af_modified (get_affected_files e bc ac)))
                          @ concat (map (\<lambda>fp. parse_file_at_commit e fp bc) dx)"]
              exI [of _ "concat (map (\<lambda>fp. parse_file_at_commit e fp bc) dy)"]) simp
  have 2: "\<exists>xs ys. rp_added (fst (analyze_repo_changes e db)) = xs @ ?A @ ys"
    unfolding lists(2) a
    by (intro exI [of _ "concat (map (file_added e bc) (af_modified (get_affected_files e bc ac)))
                          @ concat (map (\<lambda>fp. parse_file e fp None) ax)"]
              exI [of _ "concat (map (\<lambda>fp. parse_file e fp None) ay)"]) simp
  have 3: "set (rp_modified (fst (analyze_repo_changes e db)))
           \<subseteq> (\<Union>fp \<in> set (af_modified (fold (diff_line e) (pre @ post) ?r0)).
                 set (parse_file e fp None))"
    unfolding lists(3) m by (auto dest: file_modified_sub [THEN subsetD])
  have old: "?D = parse_file e old_path (Some raw)"
    using assms(8,10,11)
    by (simp add: parse_file_at_commit_def get_file_content_at_commit_def)
  have new: "?A = parse_file e new_path (Some raw)"
    using assms(9) by (simp add: parse_file_def split: option.splits)
  have 4: "?A = map (\<lambda>el. el\<lparr>el_file_path := relpath e new_path (repo_path e)\<rparr>) ?D"
    unfolding old new using parse_file_path [OF assms(12), of e raw] by simp
  have 5: "\<forall>el \<in> set ?D.
            el_file_path el = relpath e old_path (repo_path e) \<and>
            generate_element_id e el
              = md5_hexdigest (relpath e (relpath e old_path (repo_path e)) (repo_path e)
                               @ '':'' @ el_name el @ '':'' @ el_type el) \<and>
            generate_element_id e (el\<lparr>el_file_path := relpath e new_path (repo_path e)\<rparr>)
              = md5_hexdigest (relpath e (relpath e new_path (repo_path e)) (repo_path e)
                               @ '':'' @ el_name el @ '':'' @ el_type el) \<and>
            (relpath e (relpath e old_path (repo_path e)) (repo_path e)
               \<noteq> relpath e (relpath e new_path (repo_path e)) (repo_path e) \<longrightarrow>
             unique_str e el
               \<noteq> unique_str e (el\<lparr>el_file_path := relpath e new_path (repo_path e)\<rparr>)) \<and>
            (md5_hexdigest (relpath e (relpath e old_path (repo_path e)) (repo_path e)
                            @ '':'' @ el_name el @ '':'' @ el_type el)
               \<noteq> md5_hexdigest (relpath e (relpath e new_path (repo_path e)) (repo_path e)
                                @ '':'' @ el_name el @ '':'' @ el_type el) \<longrightarrow>
             generate_element_id e el
               \<noteq> generate_element_id e
                    (el\<lparr>el_file_path := relpath e new_path (repo_path e)\<rparr>))"
    using parse_file_at_commit_file_path [of _ e old_path bc]
    by (simp add: generate_element_id_def unique_str_def)
  show ?thesis
    by (intro conjI 1 2 3 4 5)
qed

text \<open>
  The rename of \<open>old.py\<close>, a file that ends in a newline, to \<open>new.py\<close> satisfies the
  hypotheses; the identities of \<open>f\<close> under the two paths are different.
\<close>

theorem renamed_file_deleted_and_added_witness:
  "push_commits rename_env = (''c0'', ''c1'') \<and>
   commit_resolves rename_env ''c0'' \<and>
   git_diff_name_status rename_env ''c0'' ''c1''
     = [] @ (''R100'' @ [CHR 0x09] @ ''old.py'' @ [CHR 0x09] @ ''new.py'') # [] \<and>
   git_show rename_env ''c0:old.py'' = Some src_fg_newline \<and>
   read_file rename_env ''/repo/new.py'' = Some src_fg_newline \<and>
   stdout_bytes src_fg_newline = src_fg \<and>
   parse_file rename_env ''/repo/old.py'' (Some (stdout_bytes src_fg_newline))
     = parse_file rename_env ''/repo/old.py'' (Some src_fg_newline) \<and>
   map el_name (parse_file_at_commit rename_env ''/repo/old.py'' ''c0'') = [''f'', ''g''] \<and>
   (\<exists>xs ys. rp_deleted (fst (analyze_repo_changes rename_env empty_db))
              = xs @ parse_file_at_commit rename_env ''/repo/old.py'' ''c0'' @ ys) \<and>
   (\<exists>xs ys. rp_added (fst (analyze_repo_changes rename_env empty_db))
              = xs @ parse_file rename_env ''/repo/new.py'' None @ ys) \<and>
   rp_modified (fst (analyze_repo_changes rename_env empty_db)) = [] \<and>
   parse_file rename_env ''/repo/new.py'' None
     = map (\<lambda>el. el\<lparr>el_file_path := ''new.py''\<rparr>)
         (parse_file_at_commit rename_env ''/repo/old.py'' ''c0'') \<and>
   generate_element_id rename_env el_old_f
     \<noteq> generate_element_id rename_env (el_old_f\<lparr>el_file_path := ''new.py''\<rparr>)"
proof -
  have h1: "push_commits rename_env = (''c0'', ''c1'')"
    by (simp add: rename_env_def demo_env_def)
  have h2: "commit_resolves rename_env ''c0''"
    by (simp add: rename_env_def demo_env_def)
  have h3: "git_diff_name_status rename_env ''c0'' ''c1''
     = [] @ (''R100'' @ [CHR 0x09] @ ''old.py'' @ [CHR 0x09] @ ''new.py'') # []"
    by (simp add: rename_env_def)
  have h4: "split_on (CHR 0x09) (''R100'' @ [CHR 0x09] @ ''old.py'' @ [CHR 0x09] @ ''new.py'')
     = ''R100'' # ''old.py'' # ''new.py'' # []"
    by code_simp
  have h5: "startswith ''R100'' ''R''"
    by code_simp
  have h6: "''/repo/old.py'' = path_join (repo_path rename_env) ''old.py''"
    by code_simp
  have h7: "''/repo/new.py'' = path_join (repo_path rename_env) ''new.py''"
    by code_simp
  have ro: "relpath rename_env ''/repo/old.py'' (repo_path rename_env) = ''old.py''"
    by code_simp
  have rn: "relpath rename_env ''/repo/new.py'' (repo_path rename_env) = ''new.py''"
    by code_simp
  have roo: "relpath rename_env ''old.py'' (repo_path rename_env) = ''old.py''"
    by code_simp
  have rnn: "relpath rename_env ''new.py'' (repo_path rename_env) = ''new.py''"
    by code_simp
  have h8: "git_show rename_env
      (''c0'' @ '':'' @ relpath rename_env ''/repo/old.py'' (repo_path rename_env))
      = Some src_fg_newline"
    unfolding ro by (simp add: rename_env_def)
  have h9: "read_file rename_env ''/repo/new.py'' = Some src_fg_newline"
    by (simp add: rename_env_def)
  have sb: "stdout_bytes src_fg_newline = src_fg"
    by code_simp
  have h10: "stdout_bytes src_fg_newline \<noteq> []"
    unfolding sb by (simp add: src_fg_def)
  have h11: "parse_file rename_env ''/repo/old.py'' (Some (stdout_bytes src_fg_newline))
     = parse_file rename_env ''/repo/old.py'' (Some src_fg_newline)"
    by code_simp
  have h12: "get_file_language ''/repo/old.py'' = get_file_language ''/repo/new.py''"
    by code_simp
  have D: "parse_file_at_commit rename_env ''/repo/old.py'' ''c0''
      = [el_old_f, el_old_f\<lparr>el_name := ''g'', el_start_line := 2, el_end_line := 2,
                              el_code := ''def g(): pass''\<rparr>]"
    by code_simp
  have digests: "md5_hexdigest ''old.py:f:function'' \<noteq> md5_hexdigest ''new.py:f:function''"
    by code_simp
  have nomod: "af_modified (fold (diff_line rename_env) ([] @ [])
      \<lparr>af_modified = [], af_added = [], af_deleted = []\<rparr>) = []"
    by simp
  note T = renamed_file_deleted_and_added
             [OF h1 h2 h3 h4 h5 h6 h7 h8 h9 h10 h11 h12, of empty_db]
  have ids: "generate_element_id rename_env el_old_f
     \<noteq> generate_element_id rename_env (el_old_f\<lparr>el_file_path := ''new.py''\<rparr>)"
    using T [THEN conjunct2, THEN conjunct2, THEN conjunct2, THEN conjunct2, THEN bspec,
             of el_old_f] digests
    by (simp add: D ro rn roo rnn) (simp add: el_old_f_def)
  have c_mod: "rp_modified (fst (analyze_repo_changes rename_env empty_db)) = []"
    using T [THEN conjunct2, THEN conjunct2, THEN conjunct1] unfolding nomod by simp
  have c_del: "\<exists>xs ys. rp_deleted (fst (analyze_repo_changes rename_env empty_db))
              = xs @ parse_file_at_commit rename_env ''/repo/old.py'' ''c0'' @ ys"
    by (rule T [THEN conjunct1])
  have c_add: "\<exists>xs ys. rp_added (fst (analyze_repo_changes rename_env empty_db))
              = xs @ parse_file rename_env ''/repo/new.py'' None @ ys"
    by (rule T [THEN conjunct2, THEN conjunct1])
  have c_map: "parse_file rename_env ''/repo/new.py'' None
     = map (\<lambda>el. el\<lparr>el_file_path := ''new.py''\<rparr>)
         (parse_file_at_commit rename_env ''/repo/old.py'' ''c0'')"
    using T [THEN conjunct2, THEN conjunct2, THEN conjunct2, THEN conjunct1]
    unfolding rn .
  have g: "git_show rename_env ''c0:old.py'' = Some src_fg_newline"
    by (simp add: rename_env_def)
  have names: "map el_name (parse_file_at_commit rename_env ''/repo/old.py'' ''c0'')
      = [''f'', ''g'']"
    unfolding D by (simp add: el_old_f_def)
  show ?thesis
    by (intro conjI) (fact h1 h2 h3 g h9 sb h11 names c_del c_add c_mod c_map ids)+
qed

end
